theory Spec2Isabelle
  imports Complex_Main
begin

text \<open>
  The sync engine of the repository (app/shopify.ts) and the action that runs it
  (app/routes/app._index.tsx), as functions of HOL: the validation of feed records, the
  rate-limited GraphQL client, the remote catalog index, the batch reconciler, the handling of
  delisted products, the engine's entry point and the action with its progress counter. The
  remote platform, the file system and the feed parsers are parameters.
\<close>

section \<open>Strings and numbers of the host language\<close>

text \<open>
  A string is the list of its UTF-8 bytes; every ASCII character is one byte. A JavaScript
  \<^verbatim>\<open>number\<close> is NaN, one of the two infinities, or a finite value, which is kept as the
  rational it denotes (rounding of finite doubles is not modelled).
\<close>

datatype number = NaN | PosInfinity | NegInfinity | Num rat

definition isNaN :: "number \<Rightarrow> bool" where
  "isNaN x = (x = NaN)"

text \<open>The comparison \<^verbatim>\<open>x < 0\<close>: false on NaN.\<close>

fun lt_zero :: "number \<Rightarrow> bool" where
  "lt_zero (Num r) = (r < 0)"
| "lt_zero NegInfinity = True"
| "lt_zero PosInfinity = False"
| "lt_zero NaN = False"

fun Math_floor :: "number \<Rightarrow> number" where
  "Math_floor (Num r) = Num (of_int \<lfloor>r\<rfloor>)"
| "Math_floor x = x"

definition isWhitespace :: "char \<Rightarrow> bool" where
  "isWhitespace c = (c \<in> set [CHR 0x09, CHR 0x0A, CHR 0x0B, CHR 0x0C, CHR 0x0D, CHR 0x20])"

text \<open>\<^verbatim>\<open>trim\<close> removes white space at both ends; of the white space of the language only
  the ASCII characters are modelled (the feed parser leaves printable ASCII only).\<close>

definition trim :: "string \<Rightarrow> string" where
  "trim s = rev (dropWhile isWhitespace (rev (dropWhile isWhitespace s)))"

definition printable :: "char \<Rightarrow> bool" where
  "printable c = (32 \<le> (of_char c :: nat) \<and> (of_char c :: nat) \<le> 126)"

text \<open>The replacement character U+FFFD, as its three UTF-8 bytes.\<close>

definition replacement_char :: string where
  "replacement_char = [CHR 0xEF, CHR 0xBF, CHR 0xBD]"

fun remove_replacement :: "string \<Rightarrow> string" where
  "remove_replacement (a # b # c # cs) =
     (if [a, b, c] = replacement_char then remove_replacement cs
      else a # remove_replacement (b # c # cs))"
| "remove_replacement cs = cs"

fun startsWith :: "string \<Rightarrow> string \<Rightarrow> bool" where
  "startsWith s [] = True"
| "startsWith [] (p # ps) = False"
| "startsWith (c # cs) (p # ps) = (c = p \<and> startsWith cs ps)"

definition endsWith :: "string \<Rightarrow> string \<Rightarrow> bool" where
  "endsWith s p = startsWith (rev s) (rev p)"

fun str_includes :: "string \<Rightarrow> string \<Rightarrow> bool" where
  "str_includes [] sub = (sub = [])"
| "str_includes (c # cs) sub = (startsWith (c # cs) sub \<or> str_includes cs sub)"

fun join :: "string \<Rightarrow> string list \<Rightarrow> string" where
  "join sep [] = []"
| "join sep [x] = x"
| "join sep (x # y # ys) = x @ sep @ join sep (y # ys)"

definition digit :: "nat \<Rightarrow> char" where
  "digit d = char_of (48 + d)"

function show_nat :: "nat \<Rightarrow> string" where
  "show_nat n = (if n < 10 then [digit n] else show_nat (n div 10) @ [digit (n mod 10)])"
  by pat_completeness auto
termination
  by (relation "measure id") auto

declare show_nat.simps [simp del]

text \<open>A string between double quotes, as \<^verbatim>\<open>JSON.stringify\<close> prints it (escaping inside
  the string is not modelled).\<close>

definition quoted :: "string \<Rightarrow> string" where
  "quoted s = CHR 0x22 # s @ [CHR 0x22]"

section \<open>Feed records (csv.ts)\<close>

record ProductData =
  code :: string
  title :: string
  description :: string
  brand :: string
  category :: string
  subcategory :: string
  barcode :: string
  price :: number
  stock :: number
  bec :: string
  image_url :: string

record EpuisesData =
  code :: string

section \<open>shopify.ts: sanitizeString and validateProduct\<close>

definition sanitizeString :: "string \<Rightarrow> string" where
  "sanitizeString str = take 255 (trim (filter printable (remove_replacement str)))"

definition validateProduct :: "ProductData \<Rightarrow> bool" where
  "validateProduct product =
     (if title product = [] \<or> trim (title product) = [] then False
      else if barcode product = [] \<or> trim (barcode product) = [] then False
      else if isNaN (price product) \<or> lt_zero (price product) then False
      else if isNaN (stock product) \<or> lt_zero (stock product) then False
      else True)"

section \<open>The remote platform as the code sees it\<close>

text \<open>
  Errors are values: the name and the message of the thrown object, so that
  \<^verbatim>\<open>String(err)\<close> and \<^verbatim>\<open>err.message\<close> can both be formed.
\<close>

datatype error = JsError (err_name: string) (err_message: string)

abbreviation Error :: "string \<Rightarrow> error" where
  "Error m \<equiv> JsError ''Error'' m"

abbreviation TypeError :: "error" where
  "TypeError \<equiv> JsError ''TypeError'' ''Cannot read properties of undefined''"

definition String_of_error :: "error \<Rightarrow> string" where
  "String_of_error e = err_name e @ '': '' @ err_message e"

datatype userError = UserError (ue_field: string) (ue_message: string)

definition JSON_stringify_userErrors :: "userError list \<Rightarrow> string" where
  "JSON_stringify_userErrors us =
     ''['' @ join '','' (map (\<lambda>u. ''{'' @ quoted ''field'' @ '':'' @ quoted (ue_field u) @ '','' @
                                   quoted ''message'' @ '':'' @ quoted (ue_message u) @ ''}'') us) @ '']''"

definition JSON_stringify_errors :: "string list \<Rightarrow> string" where
  "JSON_stringify_errors es =
     ''['' @ join '','' (map (\<lambda>m. ''{'' @ quoted ''message'' @ '':'' @ quoted m @ ''}'') es) @ '']''"

text \<open>Response shapes (the interfaces at the top of shopify.ts).\<close>

datatype variant_node = VariantNode (vn_barcode: "string option") (vn_inventoryItemId: string)

datatype product_node = ProductNode (pn_id: string) (pn_variants: "variant_node list")

datatype mutation_product = MutationProduct (mp_id: string) (mp_inventoryItemIds: "string list")

datatype mutation_result =
  MutationResult (mr_product: "mutation_product option") (mr_userErrors: "userError list")

text \<open>The alias of a sub-operation: \<^verbatim>\<open>update<i>\<close>, \<^verbatim>\<open>create<i>\<close>, \<^verbatim>\<open>delete<i>\<close>.\<close>

datatype op_alias = update_alias nat | create_alias nat | delete_alias nat

datatype response_data =
    NoData
  | ProductQueryResponse "product_node list" bool "string option"
  | ProductMutationResponse "(op_alias \<times> mutation_result) list"
  | InventoryMutationResponse "userError list"
  | ProductDeleteResponse "(op_alias \<times> userError list) list"

record GraphQLResponse =
  data :: response_data
  errors :: "string list option"

text \<open>An HTTP response; \<open>json\<close> is \<open>None\<close> when the body does not parse.\<close>

record http_response =
  status :: nat
  statusText :: string
  bodyText :: string
  json :: "GraphQLResponse option"

definition ok :: "http_response \<Rightarrow> bool" where
  "ok response = (200 \<le> status response \<and> status response \<le> 299)"

datatype fetch_result = FetchFailed error | Response http_response

text \<open>Requests. The source prints them as GraphQL text; the model keeps their content.\<close>

datatype ProductInput =
  ProductInput (in_title: string) (in_descriptionHtml: string) (in_vendor: string)
    (in_productType: string) (in_tags: "string list") (in_barcode: string) (in_price: number)

datatype mutation_op =
    productUpdate nat string ProductInput
  | productCreate nat ProductInput

datatype InventoryChange =
  InventoryChange (ch_inventoryItemId: "string option") (ch_delta: number) (ch_locationId: string)

datatype request =
    ProductsQuery "string list" "string option"
  | ProductMutation "mutation_op list"
  | InventoryAdjustQuantities "InventoryChange list"
  | ProductDeleteMutation "(nat \<times> string) list"
  | ImageUpload string string

text \<open>
  The remote platform is any deterministic machine: a state \<open>'r\<close> and a function that
  answers one HTTP request and moves to the next state.
\<close>

type_synonym 'r fetch = "'r \<Rightarrow> request \<Rightarrow> fetch_result \<times> 'r"

text \<open>
  What a run does to the world and to its own variables: the remote state, the delays it
  slept, the requests it handed to the client (one entry per call, retries not repeated),
  the failure ledger \<^verbatim>\<open>failedProducts\<close> and the arguments given to
  \<^verbatim>\<open>progressCallback\<close>.
\<close>

record 'r run =
  remote :: 'r
  waits :: "nat list"
  calls :: "request list"
  failedProducts :: "string list"
  progressCalls :: "rat list"

definition push :: "string \<Rightarrow> 'r run \<Rightarrow> 'r run" where
  "push entry st = st\<lparr>failedProducts := failedProducts st @ [entry]\<rparr>"

definition progressCallback :: "rat \<Rightarrow> 'r run \<Rightarrow> 'r run" where
  "progressCallback increment st = st\<lparr>progressCalls := progressCalls st @ [increment]\<rparr>"

section \<open>shopifyGraphQL: the rate-limited client\<close>

text \<open>
  The loop \<^verbatim>\<open>for (retry = 0; retry <= maxRetries; retry++)\<close> is the function \<open>attempt\<close>:
  one request, the parse of its body, the throttling test with its sleep of
  \<^verbatim>\<open>500 * (retry + 1)\<close> milliseconds, the error test, the return.
\<close>

definition maxRetries :: nat where
  "maxRetries = 3"

definition throttled :: "http_response \<Rightarrow> GraphQLResponse \<Rightarrow> bool" where
  "throttled response body =
     (status response = 429 \<or>
      (case errors body of None \<Rightarrow> False
       | Some es \<Rightarrow> list_ex (\<lambda>m. str_includes m ''Throttled'') es))"

definition failure_text :: "http_response \<Rightarrow> GraphQLResponse \<Rightarrow> string" where
  "failure_text response body =
     (case errors body of Some es \<Rightarrow> JSON_stringify_errors es
      | None \<Rightarrow> quoted (statusText response))"

function attempt :: "'r fetch \<Rightarrow> request \<Rightarrow> nat \<Rightarrow> 'r run \<Rightarrow> 'r run \<times> (error + GraphQLResponse)" where
  "attempt fetch req retry st =
     (if retry \<le> maxRetries then
        (case fetch (remote st) req of
           (FetchFailed e, r') \<Rightarrow> (st\<lparr>remote := r'\<rparr>, Inl e)
         | (Response response, r') \<Rightarrow>
             (case json response of
                None \<Rightarrow> (st\<lparr>remote := r'\<rparr>, Inl (JsError ''SyntaxError'' ''Unexpected token''))
              | Some body \<Rightarrow>
                  if throttled response body then
                    attempt fetch req (retry + 1)
                      (st\<lparr>remote := r', waits := waits st @ [500 * (retry + 1)]\<rparr>)
                  else if \<not> ok response \<or> errors body \<noteq> None then
                    (st\<lparr>remote := r'\<rparr>,
                     Inl (Error (''GraphQL request failed: '' @ failure_text response body)))
                  else (st\<lparr>remote := r'\<rparr>, Inr body)))
      else (st, Inl (Error ''GraphQL request failed after max retries due to rate limiting'')))"
  by pat_completeness auto
termination
  by (relation "measure (\<lambda>(fetch, req, retry, st). Suc maxRetries - retry)") auto

declare attempt.simps [simp del]

definition shopifyGraphQL :: "'r fetch \<Rightarrow> request \<Rightarrow> 'r run \<Rightarrow> 'r run \<times> (error + GraphQLResponse)" where
  "shopifyGraphQL fetch req st = attempt fetch req 0 (st\<lparr>calls := calls st @ [req]\<rparr>)"

section \<open>fetchExistingProducts: the remote catalog index\<close>

datatype RemoteProductRef = RemoteProductRef (ref_id: string) (ref_inventoryItemId: string)

type_synonym catalog_index = "string \<Rightarrow> RemoteProductRef option"

text \<open>The loop \<^verbatim>\<open>for (i = 0; i < xs.length; i += batchSize)\<close> with its
  \<^verbatim>\<open>xs.slice(i, i + batchSize)\<close>, as the list of the slices it visits. The batch sizes
  of the source are the constants 250 (keys of one query) and 50 (items of one mutation).\<close>

function batches_from :: "nat \<Rightarrow> nat \<Rightarrow> 'a list \<Rightarrow> 'a list list" where
  "batches_from batchSize i xs =
     (if 0 < batchSize \<and> i < length xs
      then take batchSize (drop i xs) # batches_from batchSize (i + batchSize) xs
      else [])"
  by pat_completeness auto
termination
  by (relation "measure (\<lambda>(batchSize, i, xs). length xs - i)") auto

declare batches_from.simps [simp del]

definition batches :: "nat \<Rightarrow> 'a list \<Rightarrow> 'a list list" where
  "batches batchSize xs = batches_from batchSize 0 xs"

text \<open>One edge of a result page: the first variant's barcode, when there is one and it is
  not empty, keys the product.\<close>

definition add_edge :: "product_node \<Rightarrow> catalog_index \<Rightarrow> catalog_index" where
  "add_edge product existingProducts =
     (case pn_variants product of
        [] \<Rightarrow> existingProducts
      | v # _ \<Rightarrow>
          (case vn_barcode v of
             None \<Rightarrow> existingProducts
           | Some key \<Rightarrow>
               if key = [] then existingProducts
               else existingProducts(key \<mapsto>
                      RemoteProductRef (pn_id product) (vn_inventoryItemId v))))"

text \<open>
  The pagination loop \<^verbatim>\<open>while (hasNextPage)\<close> ends only when the remote says so. The
  first argument bounds the number of pages read for one batch of keys; \<open>None\<close> means the
  loop was still running when the bound was reached.
\<close>

fun fetchPages :: "nat \<Rightarrow> 'r fetch \<Rightarrow> string list \<Rightarrow> string option \<Rightarrow> catalog_index \<Rightarrow> 'r run
    \<Rightarrow> ('r run \<times> (error + catalog_index)) option" where
  "fetchPages 0 fetch batch endCursor existingProducts st = None"
| "fetchPages (Suc fuel) fetch batch endCursor existingProducts st =
     (case shopifyGraphQL fetch (ProductsQuery batch endCursor) st of
        (st1, Inl e) \<Rightarrow> Some (st1, Inl e)
      | (st1, Inr result) \<Rightarrow>
          (case data result of
             ProductQueryResponse products hasNextPage endCursor1 \<Rightarrow>
               if hasNextPage
               then fetchPages fuel fetch batch endCursor1 (fold add_edge products existingProducts) st1
               else Some (st1, Inr (fold add_edge products existingProducts))
           | _ \<Rightarrow> Some (st1, Inl TypeError)))"

fun fetch_batches :: "nat \<Rightarrow> 'r fetch \<Rightarrow> string list list \<Rightarrow> catalog_index \<Rightarrow> 'r run
    \<Rightarrow> ('r run \<times> (error + catalog_index)) option" where
  "fetch_batches fuel fetch [] existingProducts st = Some (st, Inr existingProducts)"
| "fetch_batches fuel fetch (batch # rest) existingProducts st =
     (case fetchPages fuel fetch batch None existingProducts st of
        None \<Rightarrow> None
      | Some (st1, Inl e) \<Rightarrow> Some (st1, Inl e)
      | Some (st1, Inr existingProducts1) \<Rightarrow> fetch_batches fuel fetch rest existingProducts1 st1)"

definition fetchExistingProducts :: "nat \<Rightarrow> 'r fetch \<Rightarrow> string list \<Rightarrow> 'r run
    \<Rightarrow> ('r run \<times> (error + catalog_index)) option" where
  "fetchExistingProducts fuel fetch codes st =
     fetch_batches fuel fetch (batches 250 codes) Map.empty st"

section \<open>createOrUpdateProductBatch\<close>

definition locationId :: string where
  "locationId = ''gid://shopify/Location/105222275414''"

text \<open>The fields written into a sub-operation: title and description sanitized, the defaults
  for brand and category, the subcategory as the only tag when it is not empty.\<close>

definition product_input :: "ProductData \<Rightarrow> ProductInput" where
  "product_input product =
     ProductInput (sanitizeString (title product)) (sanitizeString (description product))
       (if brand product = [] then ''Unknown'' else brand product)
       (if category product = [] then ''Unknown'' else category product)
       (filter (\<lambda>tag. tag \<noteq> []) [subcategory product])
       (barcode product) (price product)"

definition build_mutation :: "catalog_index \<Rightarrow> nat \<times> ProductData \<Rightarrow> mutation_op" where
  "build_mutation existingProducts ip =
     (case existingProducts (barcode (snd ip)) of
        Some existingProduct \<Rightarrow> productUpdate (fst ip) (ref_id existingProduct) (product_input (snd ip))
      | None \<Rightarrow> productCreate (fst ip) (product_input (snd ip)))"

text \<open>\<^verbatim>\<open>variables["inventoryItemId" + index]\<close> after the first pass over the batch: set
  for the items that are updates.\<close>

definition initial_variables :: "catalog_index \<Rightarrow> (nat \<times> ProductData) list \<Rightarrow> (nat \<Rightarrow> string option)" where
  "initial_variables existingProducts ips =
     fold (\<lambda>ip variables.
             case existingProducts (barcode (snd ip)) of
               Some existingProduct \<Rightarrow> variables(fst ip \<mapsto> ref_inventoryItemId existingProduct)
             | None \<Rightarrow> variables)
          ips Map.empty"

definition last_segment :: "string \<Rightarrow> string" where
  "last_segment s = rev (takeWhile (\<lambda>c. c \<noteq> CHR ''/'') (rev s))"

text \<open>The image upload, inside its \<^verbatim>\<open>try\<close>/\<^verbatim>\<open>catch\<close>: a failure is a ledger entry.\<close>

definition uploadImage :: "'r fetch \<Rightarrow> ProductData \<Rightarrow> mutation_product \<Rightarrow> 'r run \<Rightarrow> 'r run" where
  "uploadImage fetch product created st =
     (let req = ImageUpload (last_segment (mp_id created)) (trim (image_url product));
          st1 = st\<lparr>calls := calls st @ [req]\<rparr>
      in case fetch (remote st1) req of
           (FetchFailed e, r') \<Rightarrow>
             push (''Image upload failed for '' @ title product @ '': '' @ String_of_error e)
               (st1\<lparr>remote := r'\<rparr>)
         | (Response response, r') \<Rightarrow>
             if \<not> ok response then
               push (''Image upload failed for '' @ title product @ '': '' @
                     String_of_error (Error (''Failed to upload image: '' @ bodyText response)))
                 (st1\<lparr>remote := r'\<rparr>)
             else st1\<lparr>remote := r'\<rparr>)"

definition verb :: "catalog_index \<Rightarrow> ProductData \<Rightarrow> string" where
  "verb existingProducts product =
     (if existingProducts (barcode product) \<noteq> None then ''update'' else ''create'')"

text \<open>The loop over the sub-results of the combined mutation (lines 269 to 307).\<close>

fun process_results :: "'r fetch \<Rightarrow> catalog_index \<Rightarrow> response_data \<Rightarrow> (nat \<times> ProductData) list
    \<Rightarrow> (nat \<Rightarrow> string option) \<Rightarrow> 'r run \<Rightarrow> 'r run \<times> (error + (nat \<Rightarrow> string option))" where
  "process_results fetch existingProducts d [] variables st = (st, Inr variables)"
| "process_results fetch existingProducts d ((index, product) # rest) variables st =
     (case d of
        ProductMutationResponse results \<Rightarrow>
          (case map_of results
                  (if existingProducts (barcode product) \<noteq> None
                   then update_alias index else create_alias index) of
             None \<Rightarrow> (st, Inl TypeError)
           | Some mutationResult \<Rightarrow>
               if mr_userErrors mutationResult \<noteq> [] then
                 process_results fetch existingProducts d rest variables
                   (push (''Failed to '' @ verb existingProducts product @ '' product '' @
                          title product @ '': '' @
                          JSON_stringify_userErrors (mr_userErrors mutationResult)) st)
               else
                 (case mr_product mutationResult of
                    None \<Rightarrow> (st, Inl TypeError)
                  | Some created \<Rightarrow>
                      (case mp_inventoryItemIds created of
                         [] \<Rightarrow> (st, Inl TypeError)
                       | inventoryItemId # _ \<Rightarrow>
                           process_results fetch existingProducts d rest
                             (variables(index \<mapsto> inventoryItemId))
                             (if trim (image_url product) \<noteq> [] \<and>
                                 existingProducts (barcode product) = None
                              then uploadImage fetch product created st else st))))
      | _ \<Rightarrow> (st, Inl TypeError))"

text \<open>The adjustments of lines 309 to 312: one for every product of the batch, with whatever
  \<^verbatim>\<open>variables\<close> holds for its index (\<open>None\<close> is \<^verbatim>\<open>undefined\<close>).\<close>

definition inventoryAdjustments :: "(nat \<Rightarrow> string option) \<Rightarrow> (nat \<times> ProductData) list \<Rightarrow> InventoryChange list" where
  "inventoryAdjustments variables ips =
     map (\<lambda>ip. InventoryChange (variables (fst ip)) (Math_floor (stock (snd ip))) locationId) ips"

definition createOrUpdateProductBatch :: "'r fetch \<Rightarrow> ProductData list \<Rightarrow> catalog_index \<Rightarrow> 'r run
    \<Rightarrow> 'r run \<times> (error + unit)" where
  "createOrUpdateProductBatch fetch products existingProducts st =
     (let ips = enumerate 0 products;
          mutations = map (build_mutation existingProducts) ips
      in if mutations = [] then (st, Inr ())
         else
           case shopifyGraphQL fetch (ProductMutation mutations) st of
             (st1, Inl e) \<Rightarrow> (st1, Inl e)
           | (st1, Inr result) \<Rightarrow>
               (case process_results fetch existingProducts (data result) ips
                       (initial_variables existingProducts ips) st1 of
                  (st2, Inl e) \<Rightarrow> (st2, Inl e)
                | (st2, Inr variables) \<Rightarrow>
                    (case shopifyGraphQL fetch
                            (InventoryAdjustQuantities (inventoryAdjustments variables ips)) st2 of
                       (st3, Inl e) \<Rightarrow> (st3, Inl e)
                     | (st3, Inr inventoryResult) \<Rightarrow>
                         (case data inventoryResult of
                            InventoryMutationResponse userErrors \<Rightarrow>
                              if userErrors \<noteq> [] then
                                (fold (\<lambda>product. push (''Failed to update inventory for '' @
                                         title product @ '': '' @
                                         JSON_stringify_userErrors userErrors)) products st3,
                                 Inr ())
                              else (st3, Inr ())
                          | _ \<Rightarrow> (st3, Inl TypeError)))))"

section \<open>setEpuisesStock and deleteEpuisesProducts\<close>

text \<open>The first \<^verbatim>\<open>forEach\<close> of setEpuisesStock: an adjustment of 0 for a product found
  in the index, a ledger entry for one that is not.\<close>

fun prepare_adjustments :: "catalog_index \<Rightarrow> EpuisesData list \<Rightarrow> InventoryChange list \<Rightarrow> 'r run
    \<Rightarrow> InventoryChange list \<times> 'r run" where
  "prepare_adjustments existingProducts [] adjustments st = (adjustments, st)"
| "prepare_adjustments existingProducts (product # rest) adjustments st =
     (case existingProducts (EpuisesData.code product) of
        Some existingProduct \<Rightarrow>
          prepare_adjustments existingProducts rest
            (adjustments @ [InventoryChange (Some (ref_inventoryItemId existingProduct)) (Num 0) locationId])
            st
      | None \<Rightarrow>
          prepare_adjustments existingProducts rest adjustments
            (push (''Epuises product not found: '' @ EpuisesData.code product) st))"

definition setEpuisesStock :: "'r fetch \<Rightarrow> EpuisesData list \<Rightarrow> catalog_index \<Rightarrow> 'r run
    \<Rightarrow> 'r run \<times> (error + unit)" where
  "setEpuisesStock fetch epuises existingProducts st =
     (case prepare_adjustments existingProducts epuises [] st of
        (adjustments, st1) \<Rightarrow>
          if adjustments = [] then (st1, Inr ())
          else
            (case shopifyGraphQL fetch (InventoryAdjustQuantities adjustments) st1 of
               (st2, Inl e) \<Rightarrow> (st2, Inl e)
             | (st2, Inr inventoryResult) \<Rightarrow>
                 (case data inventoryResult of
                    InventoryMutationResponse userErrors \<Rightarrow>
                      if userErrors \<noteq> [] then
                        (fold (\<lambda>product. push (''Failed to update Epuises inventory for '' @
                                 EpuisesData.code product @ '': '' @
                                 JSON_stringify_userErrors userErrors)) epuises st2,
                         Inr ())
                      else (st2, Inr ())
                  | _ \<Rightarrow> (st2, Inl TypeError))))"

fun prepare_deletes :: "catalog_index \<Rightarrow> (nat \<times> EpuisesData) list \<Rightarrow> (nat \<times> string) list \<Rightarrow> 'r run
    \<Rightarrow> (nat \<times> string) list \<times> 'r run" where
  "prepare_deletes existingProducts [] mutations st = (mutations, st)"
| "prepare_deletes existingProducts ((index, product) # rest) mutations st =
     (case existingProducts (EpuisesData.code product) of
        Some existingProduct \<Rightarrow>
          prepare_deletes existingProducts rest (mutations @ [(index, ref_id existingProduct)]) st
      | None \<Rightarrow>
          prepare_deletes existingProducts rest mutations
            (push (''Epuises product not found: '' @ EpuisesData.code product) st))"

fun delete_results :: "catalog_index \<Rightarrow> response_data \<Rightarrow> (nat \<times> EpuisesData) list \<Rightarrow> 'r run
    \<Rightarrow> 'r run \<times> (error + unit)" where
  "delete_results existingProducts d [] st = (st, Inr ())"
| "delete_results existingProducts d ((index, product) # rest) st =
     (case existingProducts (EpuisesData.code product) of
        None \<Rightarrow> delete_results existingProducts d rest st
      | Some existingProduct \<Rightarrow>
          (case d of
             ProductDeleteResponse results \<Rightarrow>
               (case map_of results (delete_alias index) of
                  None \<Rightarrow> (st, Inl TypeError)
                | Some userErrors \<Rightarrow>
                    if userErrors \<noteq> [] then
                      delete_results existingProducts d rest
                        (push (''Failed to delete product '' @ EpuisesData.code product @ '': '' @
                               JSON_stringify_userErrors userErrors) st)
                    else delete_results existingProducts d rest st)
           | _ \<Rightarrow> (st, Inl TypeError)))"

definition deleteEpuisesProducts :: "'r fetch \<Rightarrow> EpuisesData list \<Rightarrow> catalog_index \<Rightarrow> 'r run
    \<Rightarrow> 'r run \<times> (error + unit)" where
  "deleteEpuisesProducts fetch epuises existingProducts st =
     (case prepare_deletes existingProducts (enumerate 0 epuises) [] st of
        (mutations, st1) \<Rightarrow>
          if mutations = [] then (st1, Inr ())
          else
            (case shopifyGraphQL fetch (ProductDeleteMutation mutations) st1 of
               (st2, Inl e) \<Rightarrow> (st2, Inl e)
             | (st2, Inr result) \<Rightarrow>
                 delete_results existingProducts (data result) (enumerate 0 epuises) st2))"

section \<open>syncProductsWithShopify\<close>

definition allCodes :: "ProductData list \<Rightarrow> EpuisesData list \<Rightarrow> string list" where
  "allCodes nouveautes epuises = map ProductData.code nouveautes @ map EpuisesData.code epuises"

text \<open>The \<^verbatim>\<open>filter\<close> callback of lines 473 to 479: the valid items of the batch, and one
  ledger entry for each of the others.\<close>

fun validate_batch :: "ProductData list \<Rightarrow> 'r run \<Rightarrow> ProductData list \<times> 'r run" where
  "validate_batch [] st = ([], st)"
| "validate_batch (product # rest) st =
     (if \<not> validateProduct product then
        validate_batch rest (push (''Validation failed for '' @ title product) st)
      else
        (case validate_batch rest st of (valid, st1) \<Rightarrow> (product # valid, st1)))"

text \<open>The amount reported after a batch:
  \<^verbatim>\<open>(80 / Math.ceil(nouveautes.length / batchSize)) * validBatch.length\<close>.\<close>

definition batch_share :: "nat \<Rightarrow> nat \<Rightarrow> rat" where
  "batch_share len valid = 80 / of_int \<lceil>(of_nat len :: rat) / 50\<rceil> * of_nat valid"

text \<open>The loop over the slices of the incoming feed (lines 471 to 484): validation, the batch,
  the progress report. An error thrown by the batch ends the loop.\<close>

fun nouveautes_loop :: "'r fetch \<Rightarrow> catalog_index \<Rightarrow> nat \<Rightarrow> ProductData list list \<Rightarrow> 'r run
    \<Rightarrow> 'r run \<times> (error + unit)" where
  "nouveautes_loop fetch existingProducts len [] st = (st, Inr ())"
| "nouveautes_loop fetch existingProducts len (batch # rest) st =
     (case validate_batch batch st of
        (validBatch, st1) \<Rightarrow>
          (case createOrUpdateProductBatch fetch validBatch existingProducts st1 of
             (st2, Inl e) \<Rightarrow> (st2, Inl e)
           | (st2, Inr u) \<Rightarrow>
               nouveautes_loop fetch existingProducts len rest
                 (progressCallback (batch_share len (length validBatch)) st2)))"

text \<open>The state at the start of a run: nothing asked, an empty ledger, nothing reported.\<close>

definition start :: "'r \<Rightarrow> 'r run" where
  "start r = \<lparr>remote = r, waits = [], calls = [], failedProducts = [], progressCalls = []\<rparr>"

text \<open>
  \<open>shouldDeleteEpuises\<close> is the environment switch read at line 487. The result is \<open>None\<close>
  when the pagination of the index did not end within \<open>fuel\<close> pages; otherwise the final
  state and either the error thrown or a normal return.
\<close>

definition syncProductsWithShopify :: "nat \<Rightarrow> 'r fetch \<Rightarrow> bool \<Rightarrow> ProductData list \<Rightarrow> EpuisesData list
    \<Rightarrow> 'r \<Rightarrow> ('r run \<times> (error + unit)) option" where
  "syncProductsWithShopify fuel fetch shouldDeleteEpuises nouveautes epuises r =
     (case fetchExistingProducts fuel fetch (allCodes nouveautes epuises) (start r) of
        None \<Rightarrow> None
      | Some (st1, Inl e) \<Rightarrow> Some (st1, Inl e)
      | Some (st1, Inr existingProducts) \<Rightarrow>
          (case nouveautes_loop fetch existingProducts (length nouveautes) (batches 50 nouveautes)
                  (progressCallback 10 st1) of
             (st2, Inl e) \<Rightarrow> Some (st2, Inl e)
           | (st2, Inr u) \<Rightarrow>
               (case (if shouldDeleteEpuises
                      then deleteEpuisesProducts fetch epuises existingProducts st2
                      else setEpuisesStock fetch epuises existingProducts st2) of
                  (st3, Inl e) \<Rightarrow> Some (st3, Inl e)
                | (st3, Inr u) \<Rightarrow> Some (progressCallback 10 st3, Inr ()))))"

section \<open>routes/app._index.tsx: the action\<close>

definition updateProgress :: "rat \<Rightarrow> rat \<Rightarrow> rat" where
  "updateProgress progress increment = min (progress + increment) 100"

text \<open>The variable \<^verbatim>\<open>progress\<close> is kept as the list of the values it has held, the
  current one last; \<open>advance\<close> is one call of \<^verbatim>\<open>updateProgress\<close>.\<close>

definition advance :: "rat \<Rightarrow> rat list \<Rightarrow> rat list" where
  "advance increment ps = ps @ [updateProgress (last ps) increment]"

text \<open>What the action reads from outside: the directory listing, the files, the parsers' results
  and the configuration.\<close>

record environment =
  authenticated :: bool
  tempDir :: string
  readdirSync :: "error + string list"
  existsSync :: "string \<Rightarrow> bool"
  parseNouveautesCSV :: "string \<Rightarrow> error + ProductData list"
  parseEpuisesCSV :: "string \<Rightarrow> error + EpuisesData list"
  shouldDeleteEpuises :: bool

datatype ActionResult =
  ActionResult (res_progress: rat) (res_success: bool) (res_message: string)
    (res_failedProducts: "string list") (res_status: nat)

datatype action_outcome = Redirect string | Json ActionResult

definition path_join :: "string \<Rightarrow> string \<Rightarrow> string" where
  "path_join dir name = dir @ ''/'' @ name"

definition resultMessage :: "nat \<Rightarrow> nat \<Rightarrow> string list \<Rightarrow> string" where
  "resultMessage n e failed =
     ''Successfully synced '' @ show_nat n @ '' Nouveautes and '' @ show_nat e @
     '' Epuises products'' @
     (if length failed > 0 then '' with '' @ show_nat (length failed) @ '' failures'' else [])"

text \<open>The body of the \<^verbatim>\<open>try\<close> block: the history of \<^verbatim>\<open>progress\<close> and either the
  error thrown or the result returned.\<close>

definition action_try :: "nat \<Rightarrow> 'r fetch \<Rightarrow> environment \<Rightarrow> 'r \<Rightarrow> (rat list \<times> (error + ActionResult)) option" where
  "action_try fuel fetch env r =
     (case readdirSync env of
        Inl e \<Rightarrow> Some ([0], Inl e)
      | Inr files \<Rightarrow>
          (case (find (\<lambda>f. startsWith f ''StockNouveautesCgn'' \<and> endsWith f ''.csv'') files,
                 find (\<lambda>f. startsWith f ''StockEpuisesCgn'' \<and> endsWith f ''.csv'') files) of
             (Some nouveautesCSV, Some epuisesCSV) \<Rightarrow>
               if \<not> existsSync env (path_join (tempDir env) nouveautesCSV) then
                 Some ([0], Inl (Error (''Nouveautes CSV file not found at '' @
                                        path_join (tempDir env) nouveautesCSV)))
               else if \<not> existsSync env (path_join (tempDir env) epuisesCSV) then
                 Some ([0], Inl (Error (''Epuises CSV file not found at '' @
                                        path_join (tempDir env) epuisesCSV)))
               else
                 (case parseNouveautesCSV env (path_join (tempDir env) nouveautesCSV) of
                    Inl e \<Rightarrow> Some (advance 20 [0], Inl e)
                  | Inr nouveautes \<Rightarrow>
                      (case parseEpuisesCSV env (path_join (tempDir env) epuisesCSV) of
                         Inl e \<Rightarrow> Some (advance 20 (advance 20 [0]), Inl e)
                       | Inr epuises \<Rightarrow>
                           (let validNouveautes =
                                  filter (\<lambda>p. ProductData.code p \<noteq> [] \<and> title p \<noteq> []) nouveautes;
                                validEpuises = filter (\<lambda>p. EpuisesData.code p \<noteq> []) epuises;
                                ps = advance 10 (advance 20 (advance 20 [0]));
                                failed = []
                            in case syncProductsWithShopify fuel fetch (shouldDeleteEpuises env)
                                      validNouveautes validEpuises r of
                                 None \<Rightarrow> None
                               | Some (st, Inl e) \<Rightarrow> Some (fold advance (progressCalls st) ps, Inl e)
                               | Some (st, Inr u) \<Rightarrow>
                                   (let ps1 = fold advance (progressCalls st) ps;
                                        ps2 = advance (100 - last ps1) ps1
                                    in Some (ps2,
                                         Inr (ActionResult (last ps2) (length failed = 0)
                                                (resultMessage (length validNouveautes)
                                                   (length validEpuises) failed)
                                                failed 200))))))
           | _ \<Rightarrow> Some ([0], Inl (Error ''CSV files not found''))))"

text \<open>The action: the redirect when there is no session, the \<^verbatim>\<open>try\<close> block, and the
  \<^verbatim>\<open>catch\<close> that turns an error into the status 500 result. The second component is
  the history of \<^verbatim>\<open>progress\<close>.\<close>

definition action :: "nat \<Rightarrow> 'r fetch \<Rightarrow> environment \<Rightarrow> 'r \<Rightarrow> (action_outcome \<times> rat list) option" where
  "action fuel fetch env r =
     (if \<not> authenticated env then Some (Redirect ''/auth/login'', [])
      else
        (case action_try fuel fetch env r of
           None \<Rightarrow> None
         | Some (ps, Inr result) \<Rightarrow> Some (Json result, ps)
         | Some (ps, Inl e) \<Rightarrow>
             Some (Json (ActionResult (last ps) False
                           (''Failed to sync products: '' @ err_message e) [] 500), ps)))"

section \<open>Remote platforms to run scenarios against\<close>

text \<open>A success answer carrying \<open>d\<close>, and a rate-limit answer.\<close>

definition answer :: "response_data \<Rightarrow> fetch_result" where
  "answer d = Response \<lparr>status = 200, statusText = ''OK'', bodyText = [],
                         json = Some \<lparr>data = d, errors = None\<rparr>\<rparr>"

definition too_many_requests :: fetch_result where
  "too_many_requests = Response \<lparr>status = 429, statusText = ''Too Many Requests'', bodyText = [],
                                 json = Some \<lparr>data = NoData, errors = None\<rparr>\<rparr>"

text \<open>A remote that plays a fixed script: its state is the list of the answers still to give,
  whatever is asked; when the script is over the connection fails.\<close>

definition scripted :: "fetch_result list fetch" where
  "scripted script req =
     (case script of
        [] \<Rightarrow> (FetchFailed (JsError ''TypeError'' ''fetch failed''), [])
      | x # rest \<Rightarrow> (x, rest))"

text \<open>
  A well-behaved catalog: its state is the list of its products (identifier, first variant's
  barcode, inventory item). It answers a query with the products whose barcode is one of the
  keys asked for, on one page; it creates and updates as asked and reports no error; it never
  throttles.
\<close>

datatype remote_product =
  RemoteProduct (rp_id: string) (rp_barcode: string) (rp_inventoryItemId: string)

definition node_of :: "remote_product \<Rightarrow> product_node" where
  "node_of p = ProductNode (rp_id p) [VariantNode (Some (rp_barcode p)) (rp_inventoryItemId p)]"

fun apply_mutation :: "mutation_op \<Rightarrow> (op_alias \<times> mutation_result) list \<times> remote_product list
    \<Rightarrow> (op_alias \<times> mutation_result) list \<times> remote_product list" where
  "apply_mutation (productCreate index input) (results, catalog) =
     (let n = show_nat (Suc (length catalog));
          p = RemoteProduct (''gid://shopify/Product/'' @ n) (in_barcode input)
                (''gid://shopify/InventoryItem/'' @ n)
      in (results @ [(create_alias index,
                      MutationResult (Some (MutationProduct (rp_id p) [rp_inventoryItemId p])) [])],
          catalog @ [p]))"
| "apply_mutation (productUpdate index pid input) (results, catalog) =
     (case find (\<lambda>p. rp_id p = pid) catalog of
        None \<Rightarrow>
          (results @ [(update_alias index,
                       MutationResult None [UserError ''id'' ''Product does not exist''])],
           catalog)
      | Some p \<Rightarrow>
          (results @ [(update_alias index,
                       MutationResult (Some (MutationProduct pid [rp_inventoryItemId p])) [])],
           map (\<lambda>q. if rp_id q = pid
                     then RemoteProduct pid (in_barcode input) (rp_inventoryItemId q) else q)
             catalog))"

definition catalog_fetch :: "remote_product list fetch" where
  "catalog_fetch catalog req =
     (case req of
        ProductsQuery keys after \<Rightarrow>
          (answer (ProductQueryResponse
                     (map node_of (filter (\<lambda>p. rp_barcode p \<in> set keys) catalog)) False None),
           catalog)
      | ProductMutation ops \<Rightarrow>
          (case fold apply_mutation ops ([], catalog) of
             (results, catalog1) \<Rightarrow> (answer (ProductMutationResponse results), catalog1))
      | InventoryAdjustQuantities changes \<Rightarrow> (answer (InventoryMutationResponse []), catalog)
      | ProductDeleteMutation deletes \<Rightarrow>
          (answer (ProductDeleteResponse (map (\<lambda>d. (delete_alias (fst d), [])) deletes)),
           filter (\<lambda>p. rp_id p \<notin> set (map snd deletes)) catalog)
      | ImageUpload pid src \<Rightarrow> (answer NoData, catalog))"

text \<open>The row of the specification's scenario, and variations of it.\<close>

definition widget :: ProductData where
  "widget = \<lparr>ProductData.code = ''001'', title = ''Widget'', description = ''desc'', brand = ''BrandX'',
             category = ''Cat'', subcategory = ''Sub'', barcode = ''1234567890123'',
             price = Num (1999 / 100), stock = Num 10, bec = ''BEC1'', image_url = ''http://img''\<rparr>"

text \<open>The outside world of the action when both feed files are there and parse to the given
  records.\<close>

definition feeds :: "ProductData list \<Rightarrow> EpuisesData list \<Rightarrow> environment" where
  "feeds nouveautes epuises =
     \<lparr>authenticated = True, tempDir = ''temp'',
      readdirSync = Inr [''StockNouveautesCgn075257.csv'', ''StockEpuisesCgn075257.csv''],
      existsSync = (\<lambda>f. True),
      parseNouveautesCSV = (\<lambda>f. Inr nouveautes),
      parseEpuisesCSV = (\<lambda>f. Inr epuises),
      shouldDeleteEpuises = False\<rparr>"

section \<open>Observations on a run\<close>

text \<open>The sizes of the combined create-or-update requests among the calls, in order.\<close>

fun mutation_sizes :: "request list \<Rightarrow> nat list" where
  "mutation_sizes [] = []"
| "mutation_sizes (ProductMutation ops # cs) = length ops # mutation_sizes cs"
| "mutation_sizes (c # cs) = mutation_sizes cs"

text \<open>\<open>throttles fetch req k r r'\<close>: asked \<open>req\<close> again and again from state \<open>r\<close>, the remote
  answers \<open>k\<close> times in a row with a throttling response and is then in state \<open>r'\<close>.\<close>

inductive throttles :: "'r fetch \<Rightarrow> request \<Rightarrow> nat \<Rightarrow> 'r \<Rightarrow> 'r \<Rightarrow> bool" for fetch req where
  zero: "throttles fetch req 0 r r"
| step: "fetch r req = (Response response, r1) \<Longrightarrow> json response = Some body \<Longrightarrow>
         throttled response body \<Longrightarrow> throttles fetch req k r1 r2 \<Longrightarrow>
         throttles fetch req (Suc k) r r2"

text \<open>The acceptance rule in the words of the specification: title and barcode not empty
  after trim, price and stock finite numbers that are not negative.\<close>

fun finite_nonneg :: "number \<Rightarrow> bool" where
  "finite_nonneg (Num r) = (0 \<le> r)"
| "finite_nonneg x = False"

definition spec_accepts :: "ProductData \<Rightarrow> bool" where
  "spec_accepts product =
     (trim (title product) \<noteq> [] \<and> trim (barcode product) \<noteq> [] \<and>
      finite_nonneg (price product) \<and> finite_nonneg (stock product))"

text \<open>A delisted product is found when the index has its code; the adjustment prepared for it
  sets a delta of zero on the inventory item the index gives.\<close>

definition found :: "catalog_index \<Rightarrow> EpuisesData \<Rightarrow> bool" where
  "found existingProducts product = (existingProducts (EpuisesData.code product) \<noteq> None)"

definition zero_adjustment :: "catalog_index \<Rightarrow> EpuisesData \<Rightarrow> InventoryChange" where
  "zero_adjustment existingProducts product =
     InventoryChange (map_option ref_inventoryItemId (existingProducts (EpuisesData.code product)))
       (Num 0) locationId"

text \<open>An index that knows the code 999 only.\<close>

definition depot :: catalog_index where
  "depot = Map.empty(''999'' \<mapsto> RemoteProductRef ''gid://shopify/Product/2'' ''gid://shopify/InventoryItem/2'')"

text \<open>Of a finished run: the sizes of its combined mutation requests, and how it ended.\<close>

definition mutation_calls :: "('r run \<times> (error + unit)) option \<Rightarrow> (nat list \<times> (error + unit)) option" where
  "mutation_calls outcome = map_option (\<lambda>run. (mutation_sizes (calls (fst run)), snd run)) outcome"

text \<open>A remote without state that accepts everything: it knows no product, creates and updates
  as asked, and reports no error.\<close>

fun accept_op :: "mutation_op \<Rightarrow> op_alias \<times> mutation_result" where
  "accept_op (productCreate index input) =
     (create_alias index,
      MutationResult (Some (MutationProduct ''gid://shopify/Product/1''
                              [''gid://shopify/InventoryItem/1''])) [])"
| "accept_op (productUpdate index pid input) =
     (update_alias index,
      MutationResult (Some (MutationProduct pid [''gid://shopify/InventoryItem/1''])) [])"

definition accepted :: "request \<Rightarrow> response_data" where
  "accepted req =
     (case req of
        ProductsQuery keys after \<Rightarrow> ProductQueryResponse [] False None
      | ProductMutation ops \<Rightarrow> ProductMutationResponse (map accept_op ops)
      | InventoryAdjustQuantities changes \<Rightarrow> InventoryMutationResponse []
      | ProductDeleteMutation deletes \<Rightarrow>
          ProductDeleteResponse (map (\<lambda>d. (delete_alias (fst d), [])) deletes)
      | ImageUpload pid src \<Rightarrow> NoData)"

definition accepting :: "unit fetch" where
  "accepting u req = (answer (accepted req), ())"

text \<open>The progress counter in the words of the specification: it starts at \<open>p\<close>, and each
  call with an amount sets it to the minimum of the sum and 100. The list holds every value of
  the counter, the starting one first.\<close>

fun progress_values :: "rat \<Rightarrow> rat list \<Rightarrow> rat list" where
  "progress_values p [] = [p]"
| "progress_values p (amount # amounts) = p # progress_values (min (p + amount) 100) amounts"


section \<open>Properties\<close>

subsection \<open>Effects on the calls, the ledger and the progress reports\<close>

lemma mutation_sizes_append: "mutation_sizes (xs @ ys) = mutation_sizes xs @ mutation_sizes ys"
  by (induction xs rule: mutation_sizes.induct) auto

lemma mutation_sizes_member:
  "ProductMutation ops \<in> set cs \<Longrightarrow> length ops \<in> set (mutation_sizes cs)"
  by (induction cs rule: mutation_sizes.induct) auto

lemma push_frame [simp]:
  "calls (push e st) = calls st" "progressCalls (push e st) = progressCalls st"
  "failedProducts (push e st) = failedProducts st @ [e]" "remote (push e st) = remote st"
  "waits (push e st) = waits st"
  by (simp_all add: push_def)

lemma progressCallback_frame [simp]:
  "calls (progressCallback x st) = calls st"
  "progressCalls (progressCallback x st) = progressCalls st @ [x]"
  "failedProducts (progressCallback x st) = failedProducts st"
  by (simp_all add: progressCallback_def)

lemma start_frame [simp]:
  "calls (start r) = []" "progressCalls (start r) = []" "failedProducts (start r) = []"
  by (simp_all add: start_def)

lemma fold_push_frame [simp]:
  "calls (fold (\<lambda>x. push (f x)) xs st) = calls st"
  "progressCalls (fold (\<lambda>x. push (f x)) xs st) = progressCalls st"
  "failedProducts (fold (\<lambda>x. push (f x)) xs st) = failedProducts st @ map f xs"
  by (induction xs arbitrary: st) simp_all

lemma attempt_frame:
  "attempt fetch req retry st = (st', res) \<Longrightarrow>
     calls st' = calls st \<and> failedProducts st' = failedProducts st \<and> progressCalls st' = progressCalls st"
proof (induction fetch req retry st rule: attempt.induct)
  case (1 fetch req retry st)
  show ?case
  proof (cases "retry \<le> maxRetries")
    case False
    with "1.prems" show ?thesis by (simp add: attempt.simps)
  next
    case True
    obtain fr r' where f: "fetch (remote st) req = (fr, r')" by (cases "fetch (remote st) req")
    show ?thesis
    proof (cases fr)
      case (FetchFailed e)
      with True f "1.prems" show ?thesis by (auto simp: attempt.simps [of fetch req retry st])
    next
      case (Response response)
      show ?thesis
      proof (cases "json response")
        case None
        with True f Response "1.prems" show ?thesis
          by (auto simp: attempt.simps [of fetch req retry st])
      next
        case (Some body)
        show ?thesis
        proof (cases "throttled response body")
          case t: True
          have "attempt fetch req (retry + 1)
                  (st\<lparr>remote := r', waits := waits st @ [500 * (retry + 1)]\<rparr>) = (st', res)"
            using True f Response Some t "1.prems"
            by (simp add: attempt.simps [of fetch req retry st])
          from "1.IH" [OF True f [symmetric] Response Some t this]
          show ?thesis by simp
        next
          case nt: False
          with True f Response Some "1.prems" show ?thesis
            by (auto simp: attempt.simps [of fetch req retry st] split: if_splits)
        qed
      qed
    qed
  qed
qed

lemma shopifyGraphQL_frame:
  "shopifyGraphQL fetch req st = (st', res) \<Longrightarrow>
     calls st' = calls st @ [req] \<and> failedProducts st' = failedProducts st \<and>
     progressCalls st' = progressCalls st"
  unfolding shopifyGraphQL_def by (drule attempt_frame) simp

lemma uploadImage_frame:
  "calls (uploadImage fetch product created st) =
     calls st @ [ImageUpload (last_segment (mp_id created)) (trim (image_url product))]"
  "progressCalls (uploadImage fetch product created st) = progressCalls st"
  by (auto simp: uploadImage_def Let_def split: prod.splits fetch_result.splits)

lemma process_results_frame:
  "process_results fetch ex d ips vars st = (st', res) \<Longrightarrow>
     mutation_sizes (calls st') = mutation_sizes (calls st) \<and> progressCalls st' = progressCalls st"
proof (induction ips arbitrary: vars st)
  case Nil
  then show ?case by simp
next
  case (Cons ip ips)
  obtain index product where ip: "ip = (index, product)" by (cases ip)
  show ?case
  proof (cases d)
    case (ProductMutationResponse results)
    note IH = Cons.IH [unfolded ProductMutationResponse]
    from Cons.prems show ?thesis
      unfolding ip ProductMutationResponse
      by (auto split: option.splits if_splits list.splits
          dest!: IH simp: uploadImage_frame mutation_sizes_append)
  qed (use Cons.prems in \<open>auto simp: ip\<close>)
qed

lemma createOrUpdateProductBatch_frame:
  assumes "createOrUpdateProductBatch fetch products ex st = (st', res)"
  shows "mutation_sizes (calls st') =
           mutation_sizes (calls st) @ (if products = [] then [] else [length products]) \<and>
         progressCalls st' = progressCalls st"
proof (cases "products = []")
  case True
  with assms show ?thesis by (simp add: createOrUpdateProductBatch_def enumerate_eq_zip)
next
  case False
  then have ne: "map (build_mutation ex) (enumerate 0 products) \<noteq> []"
    by (simp add: enumerate_eq_zip)
  obtain st1 r1 where g1: "shopifyGraphQL fetch
      (ProductMutation (map (build_mutation ex) (enumerate 0 products))) st = (st1, r1)"
    by (cases "shopifyGraphQL fetch
      (ProductMutation (map (build_mutation ex) (enumerate 0 products))) st")
  from shopifyGraphQL_frame [OF g1]
  have f1: "mutation_sizes (calls st1) = mutation_sizes (calls st) @ [length products]"
    "progressCalls st1 = progressCalls st"
    by (simp_all add: mutation_sizes_append)
  show ?thesis
  proof (cases r1)
    case (Inl e)
    with assms ne g1 f1 False show ?thesis
      by (auto simp: createOrUpdateProductBatch_def Let_def)
  next
    case (Inr result)
    obtain st2 r2 where g2: "process_results fetch ex (data result) (enumerate 0 products)
        (initial_variables ex (enumerate 0 products)) st1 = (st2, r2)"
      by (cases "process_results fetch ex (data result) (enumerate 0 products)
        (initial_variables ex (enumerate 0 products)) st1")
    note f2 = process_results_frame [OF g2]
    show ?thesis
    proof (cases r2)
      case e: (Inl e)
      with assms ne g1 Inr g2 f1 f2 False show ?thesis
        by (auto simp: createOrUpdateProductBatch_def Let_def)
    next
      case v: (Inr variables)
      obtain st3 r3 where g3: "shopifyGraphQL fetch
          (InventoryAdjustQuantities (inventoryAdjustments variables (enumerate 0 products))) st2
          = (st3, r3)"
        by (cases "shopifyGraphQL fetch
          (InventoryAdjustQuantities (inventoryAdjustments variables (enumerate 0 products))) st2")
      from shopifyGraphQL_frame [OF g3]
      have f3: "mutation_sizes (calls st3) = mutation_sizes (calls st2)"
        "progressCalls st3 = progressCalls st2"
        by (simp_all add: mutation_sizes_append)
      from assms ne g1 Inr g2 v g3 f1 f2 f3 False show ?thesis
        by (auto simp: createOrUpdateProductBatch_def Let_def
            split: sum.splits response_data.splits if_splits)
    qed
  qed
qed

lemma fetchPages_frame:
  "fetchPages fuel fetch batch cursor ex st = Some (st', res) \<Longrightarrow>
     mutation_sizes (calls st') = mutation_sizes (calls st) \<and>
     progressCalls st' = progressCalls st \<and> failedProducts st' = failedProducts st"
proof (induction fuel arbitrary: cursor ex st)
  case 0
  then show ?case by simp
next
  case (Suc fuel)
  obtain st1 r1 where g: "shopifyGraphQL fetch (ProductsQuery batch cursor) st = (st1, r1)"
    by (cases "shopifyGraphQL fetch (ProductsQuery batch cursor) st")
  from shopifyGraphQL_frame [OF g]
  have f: "mutation_sizes (calls st1) = mutation_sizes (calls st)"
    "progressCalls st1 = progressCalls st" "failedProducts st1 = failedProducts st"
    by (simp_all add: mutation_sizes_append)
  from Suc.prems g f show ?case
    by (auto split: sum.splits response_data.splits if_splits dest!: Suc.IH)
qed

lemma fetch_batches_frame:
  "fetch_batches fuel fetch bs ex st = Some (st', res) \<Longrightarrow>
     mutation_sizes (calls st') = mutation_sizes (calls st) \<and>
     progressCalls st' = progressCalls st \<and> failedProducts st' = failedProducts st"
proof (induction bs arbitrary: ex st)
  case Nil
  then show ?case by simp
next
  case (Cons b bs)
  from Cons.prems show ?case
    by (auto split: option.splits sum.splits prod.splits dest!: fetchPages_frame Cons.IH)
qed

lemma prepare_adjustments_eq:
  "prepare_adjustments ex eps adj st =
     (adj @ map (zero_adjustment ex) (filter (found ex) eps),
      st\<lparr>failedProducts := failedProducts st @
            map (\<lambda>p. ''Epuises product not found: '' @ EpuisesData.code p)
              (filter (\<lambda>p. \<not> found ex p) eps)\<rparr>)"
  by (induction eps arbitrary: adj st)
     (auto simp: found_def zero_adjustment_def push_def split: option.splits)

lemma setEpuisesStock_frame:
  assumes "setEpuisesStock fetch epuises ex st = (st', res)"
  shows "mutation_sizes (calls st') = mutation_sizes (calls st) \<and>
         progressCalls st' = progressCalls st"
proof -
  obtain adj st1 where p: "prepare_adjustments ex epuises [] st = (adj, st1)"
    by (cases "prepare_adjustments ex epuises [] st")
  then have f1: "calls st1 = calls st" "progressCalls st1 = progressCalls st"
    by (auto simp: prepare_adjustments_eq)
  show ?thesis
  proof (cases "adj = []")
    case True
    with assms p f1 show ?thesis by (simp add: setEpuisesStock_def)
  next
    case False
    obtain st2 r2 where g: "shopifyGraphQL fetch (InventoryAdjustQuantities adj) st1 = (st2, r2)"
      by (cases "shopifyGraphQL fetch (InventoryAdjustQuantities adj) st1")
    from shopifyGraphQL_frame [OF g]
    have f2: "mutation_sizes (calls st2) = mutation_sizes (calls st1)"
      "progressCalls st2 = progressCalls st1"
      by (simp_all add: mutation_sizes_append)
    from assms p False g f1 f2 show ?thesis
      by (auto simp: setEpuisesStock_def split: sum.splits response_data.splits if_splits)
  qed
qed

lemma prepare_deletes_frame:
  "prepare_deletes ex ips ms st = (ms', st') \<Longrightarrow>
     calls st' = calls st \<and> progressCalls st' = progressCalls st"
  by (induction ex ips ms st rule: prepare_deletes.induct) (auto split: option.splits)

lemma delete_results_frame:
  "delete_results ex d ips st = (st', res) \<Longrightarrow>
     calls st' = calls st \<and> progressCalls st' = progressCalls st"
proof (induction ips arbitrary: st)
  case Nil
  then show ?case by simp
next
  case (Cons ip ips)
  obtain index product where ip: "ip = (index, product)" by (cases ip)
  show ?case
  proof (cases d)
    case (ProductDeleteResponse results)
    note IH = Cons.IH [unfolded ProductDeleteResponse]
    from Cons.prems show ?thesis
      unfolding ip ProductDeleteResponse
      by (auto split: option.splits if_splits dest!: IH)
  qed (use Cons.prems Cons.IH in \<open>auto simp: ip split: option.splits\<close>)
qed

lemma deleteEpuisesProducts_frame:
  assumes "deleteEpuisesProducts fetch epuises ex st = (st', res)"
  shows "mutation_sizes (calls st') = mutation_sizes (calls st) \<and>
         progressCalls st' = progressCalls st"
proof -
  obtain ms st1 where p: "prepare_deletes ex (enumerate 0 epuises) [] st = (ms, st1)"
    by (cases "prepare_deletes ex (enumerate 0 epuises) [] st")
  note f1 = prepare_deletes_frame [OF p]
  show ?thesis
  proof (cases "ms = []")
    case True
    with assms p f1 show ?thesis by (simp add: deleteEpuisesProducts_def)
  next
    case False
    obtain st2 r2 where g: "shopifyGraphQL fetch (ProductDeleteMutation ms) st1 = (st2, r2)"
      by (cases "shopifyGraphQL fetch (ProductDeleteMutation ms) st1")
    from shopifyGraphQL_frame [OF g]
    have f2: "mutation_sizes (calls st2) = mutation_sizes (calls st1)"
      "progressCalls st2 = progressCalls st1"
      by (simp_all add: mutation_sizes_append)
    from assms p False g f1 f2 show ?thesis
      by (auto simp: deleteEpuisesProducts_def split: sum.splits dest!: delete_results_frame)
  qed
qed

subsection \<open>Slices of a feed\<close>

lemma batches_from_length_le: "b \<in> set (batches_from n i xs) \<Longrightarrow> length b \<le> n"
proof (induction n i xs rule: batches_from.induct)
  case (1 n i xs)
  then show ?case
    by (subst (asm) batches_from.simps) (auto split: if_splits)
qed

lemma batches_from_nonempty: "b \<in> set (batches_from n i xs) \<Longrightarrow> b \<noteq> []"
proof (induction n i xs rule: batches_from.induct)
  case (1 n i xs)
  then show ?case
    by (subst (asm) batches_from.simps) (auto split: if_splits)
qed

lemma concat_batches_from: "0 < n \<Longrightarrow> concat (batches_from n i xs) = drop i xs"
proof (induction n i xs rule: batches_from.induct)
  case (1 n i xs)
  show ?case
  proof (cases "i < length xs")
    case True
    with 1 have "concat (batches_from n i xs) = take n (drop i xs) @ drop (i + n) xs"
      by (subst batches_from.simps) simp
    also have "\<dots> = drop i xs"
      by (metis add.commute append_take_drop_id drop_drop)
    finally show ?thesis .
  next
    case False
    then show ?thesis by (subst batches_from.simps) simp
  qed
qed

lemma length_batches_from:
  "0 < n \<Longrightarrow> length (batches_from n i xs) = (length xs - i + n - 1) div n"
proof (induction n i xs rule: batches_from.induct)
  case (1 n i xs)
  define L where "L = length xs - i"
  show ?case
  proof (cases "i < length xs")
    case True
    then have L: "0 < L" by (simp add: L_def)
    have "length (batches_from n i xs) = Suc ((length xs - (i + n) + n - 1) div n)"
      using 1 True by (subst batches_from.simps) simp
    also have "length xs - (i + n) = L - n" by (simp add: L_def)
    also have "Suc ((L - n + n - 1) div n) = (L - 1) div n + 1"
      using "1.prems" by (cases "n \<le> L") simp_all
    also have "\<dots> = ((L - 1) + n) div n"
      using "1.prems" by simp
    also have "(L - 1) + n = L + n - 1" using L by simp
    finally show ?thesis by (simp add: L_def)
  next
    case False
    then show ?thesis using "1.prems" by (subst batches_from.simps) simp
  qed
qed

lemma batches_51:
  "batches 50 (x # replicate 50 y) = [x # replicate 49 y, [y]]"
proof -
  have "batches_from 50 100 (x # replicate 50 y) = []"
    by (subst batches_from.simps) simp
  moreover have "drop 50 (x # replicate 50 y) = [y]"
    by (simp add: drop_Cons')
  moreover have "take 50 (x # replicate 50 y) = x # replicate 49 y"
    by (simp add: take_Cons')
  ultimately show ?thesis
    unfolding batches_def
    by (subst batches_from.simps, simp, subst batches_from.simps, simp)
qed

subsection \<open>The rate-limited client\<close>

lemma delays_Suc:
  "map (\<lambda>i. 500 * (retry + i)) [1..<Suc (Suc k)] =
     (500 * (retry + 1)) # map (\<lambda>i. 500 * (retry + 1 + i)) [1..<Suc k]"
proof -
  have "[1..<Suc (Suc k)] = 1 # map Suc [1..<Suc k]"
    by (simp add: upt_conv_Cons map_Suc_upt del: upt_Suc)
  then show ?thesis by (simp add: comp_def del: upt_Suc)
qed

lemma attempt_throttles:
  assumes "throttles fetch req k r r1"
  shows "remote st = r \<Longrightarrow> retry + k \<le> Suc maxRetries \<Longrightarrow>
         attempt fetch req retry st =
         attempt fetch req (retry + k)
           (st\<lparr>remote := r1, waits := waits st @ map (\<lambda>i. 500 * (retry + i)) [1..<Suc k]\<rparr>)"
  using assms
proof (induction arbitrary: st retry rule: throttles.induct)
  case (zero r)
  then show ?case by (cases st) simp
next
  case (step r response r1 body k r2)
  let ?st1 = "st\<lparr>remote := r1, waits := waits st @ [500 * (retry + 1)]\<rparr>"
  have "attempt fetch req retry st = attempt fetch req (retry + 1) ?st1"
    using step.hyps step.prems by (simp add: attempt.simps [of fetch req retry st])
  also have "\<dots> = attempt fetch req (retry + 1 + k)
      (?st1\<lparr>remote := r2, waits := waits ?st1 @ map (\<lambda>i. 500 * (retry + 1 + i)) [1..<Suc k]\<rparr>)"
    using step.prems by (intro step.IH) simp_all
  finally show ?case
    unfolding delays_Suc by (simp del: upt_Suc)
qed

lemma throttles_scripted:
  "throttles scripted req k (replicate k too_many_requests @ rest) rest"
proof (induction k)
  case 0
  show ?case by (simp add: throttles.zero)
next
  case (Suc k)
  show ?case
    by (rule throttles.step [OF _ _ _ Suc, where response = "\<lparr>status = 429,
            statusText = ''Too Many Requests'', bodyText = [],
            json = Some \<lparr>data = NoData, errors = None\<rparr>\<rparr>"
          and body = "\<lparr>data = NoData, errors = None\<rparr>"])
      (simp_all add: scripted_def too_many_requests_def throttled_def)
qed

text \<open>
  Claim C9, as amended. For the calls made through the client \<open>shopifyGraphQL\<close> (catalog query,
  combined mutation, inventory adjustment, deletion), and as far as the bodies of the responses
  parse: a call that meets \<open>k\<close> throttling responses in a row sleeps \<open>500 \<times> attempt\<close>
  milliseconds after each of them and asks again. If \<open>k \<le> 3\<close> and the next response is a
  success, its body is returned as it is; if the next response is an error that is not
  throttling, or the transport fails, the call raises at once and asks nothing more. After
  four throttling responses the call raises the rate-limiting error. A response whose body does
  not parse is left out of this statement. The image upload is not a call of the client: it is
  sent once, never sleeps, and a failure or a response that is not OK, throttling included, is
  one ledger entry.
\<close>

theorem shopifyGraphQL_retries:
  assumes "throttles fetch req k (remote st) r1"
  shows
    "(k \<le> 3 \<and> fetch r1 req = (Response response, r2) \<and> json response = Some body \<and>
        \<not> throttled response body \<and> ok response \<and> errors body = None
      \<longrightarrow> shopifyGraphQL fetch req st =
            (st\<lparr>remote := r2, waits := waits st @ map (\<lambda>i. 500 * i) [1..<Suc k],
                 calls := calls st @ [req]\<rparr>, Inr body)) \<and>
     (k \<le> 3 \<and> fetch r1 req = (Response response, r2) \<and> json response = Some body \<and>
        \<not> throttled response body \<and> (\<not> ok response \<or> errors body \<noteq> None)
      \<longrightarrow> shopifyGraphQL fetch req st =
            (st\<lparr>remote := r2, waits := waits st @ map (\<lambda>i. 500 * i) [1..<Suc k],
                 calls := calls st @ [req]\<rparr>,
             Inl (Error (''GraphQL request failed: '' @ failure_text response body)))) \<and>
     (k \<le> 3 \<and> fetch r1 req = (FetchFailed e, r2)
      \<longrightarrow> shopifyGraphQL fetch req st =
            (st\<lparr>remote := r2, waits := waits st @ map (\<lambda>i. 500 * i) [1..<Suc k],
                 calls := calls st @ [req]\<rparr>, Inl e)) \<and>
     (k = 4
      \<longrightarrow> shopifyGraphQL fetch req st =
            (st\<lparr>remote := r1, waits := waits st @ [500, 1000, 1500, 2000],
                 calls := calls st @ [req]\<rparr>,
             Inl (Error ''GraphQL request failed after max retries due to rate limiting''))) \<and>
     waits (uploadImage fetch product created st) = waits st \<and>
     remote (uploadImage fetch product created st) =
       snd (fetch (remote st) (ImageUpload (last_segment (mp_id created)) (trim (image_url product)))) \<and>
     failedProducts (uploadImage fetch product created st) =
       failedProducts st @
       (case fst (fetch (remote st)
                    (ImageUpload (last_segment (mp_id created)) (trim (image_url product)))) of
          FetchFailed e' \<Rightarrow>
            [''Image upload failed for '' @ title product @ '': '' @ String_of_error e']
        | Response response' \<Rightarrow>
            if ok response' then []
            else [''Image upload failed for '' @ title product @ '': '' @
                  String_of_error (Error (''Failed to upload image: '' @ bodyText response'))])"
proof -
  let ?st0 = "st\<lparr>calls := calls st @ [req]\<rparr>"
  let ?stk = "?st0\<lparr>remote := r1, waits := waits ?st0 @ map (\<lambda>i. 500 * (0 + i)) [1..<Suc k]\<rparr>"
  have run: "k \<le> 4 \<Longrightarrow> shopifyGraphQL fetch req st = attempt fetch req k ?stk"
    unfolding shopifyGraphQL_def
    using attempt_throttles [OF assms, of ?st0 0] by (simp add: maxRetries_def del: upt_Suc)
  have four: "map (\<lambda>i. 500 * i) [1..<Suc 4] = [500, 1000, 1500, 2000 :: nat]"
    by (simp add: upt_rec)
  show ?thesis
  proof (intro conjI impI)
    assume "k \<le> 3 \<and> fetch r1 req = (Response response, r2) \<and> json response = Some body \<and>
        \<not> throttled response body \<and> ok response \<and> errors body = None"
    then show "shopifyGraphQL fetch req st =
            (st\<lparr>remote := r2, waits := waits st @ map (\<lambda>i. 500 * i) [1..<Suc k],
                 calls := calls st @ [req]\<rparr>, Inr body)"
      using run by (simp add: attempt.simps [of fetch req k] maxRetries_def del: upt_Suc)
  next
    assume "k \<le> 3 \<and> fetch r1 req = (Response response, r2) \<and> json response = Some body \<and>
        \<not> throttled response body \<and> (\<not> ok response \<or> errors body \<noteq> None)"
    then show "shopifyGraphQL fetch req st =
            (st\<lparr>remote := r2, waits := waits st @ map (\<lambda>i. 500 * i) [1..<Suc k],
                 calls := calls st @ [req]\<rparr>,
             Inl (Error (''GraphQL request failed: '' @ failure_text response body)))"
      using run by (auto simp: attempt.simps [of fetch req k] maxRetries_def simp del: upt_Suc)
  next
    assume "k \<le> 3 \<and> fetch r1 req = (FetchFailed e, r2)"
    then show "shopifyGraphQL fetch req st =
            (st\<lparr>remote := r2, waits := waits st @ map (\<lambda>i. 500 * i) [1..<Suc k],
                 calls := calls st @ [req]\<rparr>, Inl e)"
      using run by (simp add: attempt.simps [of fetch req k] maxRetries_def del: upt_Suc)
  next
    assume "k = 4"
    then show "shopifyGraphQL fetch req st =
            (st\<lparr>remote := r1, waits := waits st @ [500, 1000, 1500, 2000],
                 calls := calls st @ [req]\<rparr>,
             Inl (Error ''GraphQL request failed after max retries due to rate limiting''))"
      using run four by (simp add: attempt.simps [of fetch req 4] maxRetries_def del: upt_Suc)
  next
    show "waits (uploadImage fetch product created st) = waits st"
      by (auto simp: uploadImage_def Let_def push_def split: prod.splits fetch_result.splits)
  next
    show "remote (uploadImage fetch product created st) =
       snd (fetch (remote st) (ImageUpload (last_segment (mp_id created)) (trim (image_url product))))"
      by (auto simp: uploadImage_def Let_def push_def split: prod.splits fetch_result.splits)
  next
    show "failedProducts (uploadImage fetch product created st) =
       failedProducts st @
       (case fst (fetch (remote st)
                    (ImageUpload (last_segment (mp_id created)) (trim (image_url product)))) of
          FetchFailed e' \<Rightarrow>
            [''Image upload failed for '' @ title product @ '': '' @ String_of_error e']
        | Response response' \<Rightarrow>
            if ok response' then []
            else [''Image upload failed for '' @ title product @ '': '' @
                  String_of_error (Error (''Failed to upload image: '' @ bodyText response'))])"
      by (auto simp: uploadImage_def Let_def push_def split: prod.splits fetch_result.splits)
  qed
qed

text \<open>Two throttling responses and then a success; one throttling response and then a server
  error; a transport failure; four throttling responses.\<close>

theorem shopifyGraphQL_retries_witness:
  "shopifyGraphQL scripted (ProductsQuery [''001''] None)
      (start [too_many_requests, too_many_requests, answer NoData]) =
     (\<lparr>remote = [], waits = [500, 1000], calls = [ProductsQuery [''001''] None],
       failedProducts = [], progressCalls = []\<rparr>, Inr \<lparr>data = NoData, errors = None\<rparr>) \<and>
   shopifyGraphQL scripted (ProductsQuery [''001''] None)
      (start [too_many_requests,
              Response \<lparr>status = 500, statusText = ''Internal Server Error'', bodyText = [],
                        json = Some \<lparr>data = NoData, errors = None\<rparr>\<rparr>, answer NoData]) =
     (\<lparr>remote = [answer NoData], waits = [500], calls = [ProductsQuery [''001''] None],
       failedProducts = [], progressCalls = []\<rparr>,
      Inl (Error (''GraphQL request failed: '' @ quoted ''Internal Server Error''))) \<and>
   shopifyGraphQL scripted (ProductsQuery [''001''] None) (start []) =
     (\<lparr>remote = [], waits = [], calls = [ProductsQuery [''001''] None],
       failedProducts = [], progressCalls = []\<rparr>, Inl (JsError ''TypeError'' ''fetch failed'')) \<and>
   shopifyGraphQL scripted (ProductsQuery [''001''] None)
      (start [too_many_requests, too_many_requests, too_many_requests, too_many_requests,
              answer NoData]) =
     (\<lparr>remote = [answer NoData], waits = [500, 1000, 1500, 2000],
       calls = [ProductsQuery [''001''] None], failedProducts = [], progressCalls = []\<rparr>,
      Inl (Error ''GraphQL request failed after max retries due to rate limiting''))"
proof -
  let ?q = "ProductsQuery [''001''] None"
  let ?error = "Response \<lparr>status = 500, statusText = ''Internal Server Error'', bodyText = [],
                        json = Some \<lparr>data = NoData, errors = None\<rparr>\<rparr>"
  have t2: "throttles scripted ?q 2
      (remote (start [too_many_requests, too_many_requests, answer NoData])) [answer NoData]"
    using throttles_scripted [of ?q 2 "[answer NoData]"] by (simp add: start_def numeral_2_eq_2)
  have t1: "throttles scripted ?q 1
      (remote (start [too_many_requests, ?error, answer NoData])) [?error, answer NoData]"
    using throttles_scripted [of ?q 1 "[?error, answer NoData]"] by (simp add: start_def)
  have t0: "throttles scripted ?q 0 (remote (start [])) []"
    by (simp add: start_def throttles.zero)
  have t4: "throttles scripted ?q 4
      (remote (start [too_many_requests, too_many_requests, too_many_requests, too_many_requests,
              answer NoData])) [answer NoData]"
    using throttles_scripted [of ?q 4 "[answer NoData]"]
    by (simp add: start_def numeral_eq_Suc)
  have A: "shopifyGraphQL scripted ?q (start [too_many_requests, too_many_requests, answer NoData]) =
     (\<lparr>remote = [], waits = [500, 1000], calls = [?q],
       failedProducts = [], progressCalls = []\<rparr>, Inr \<lparr>data = NoData, errors = None\<rparr>)"
    using shopifyGraphQL_retries [OF t2, of "\<lparr>status = 200, statusText = ''OK'', bodyText = [],
        json = Some \<lparr>data = NoData, errors = None\<rparr>\<rparr>" "[]" "\<lparr>data = NoData, errors = None\<rparr>"]
    by (simp add: scripted_def answer_def throttled_def ok_def start_def upt_rec)
  have B: "shopifyGraphQL scripted ?q (start [too_many_requests, ?error, answer NoData]) =
     (\<lparr>remote = [answer NoData], waits = [500], calls = [?q],
       failedProducts = [], progressCalls = []\<rparr>,
      Inl (Error (''GraphQL request failed: '' @ quoted ''Internal Server Error'')))"
    using shopifyGraphQL_retries [OF t1, of "\<lparr>status = 500, statusText = ''Internal Server Error'',
        bodyText = [], json = Some \<lparr>data = NoData, errors = None\<rparr>\<rparr>" "[answer NoData]"
        "\<lparr>data = NoData, errors = None\<rparr>"]
    by (simp add: scripted_def throttled_def ok_def start_def upt_rec failure_text_def)
  have C: "shopifyGraphQL scripted ?q (start []) =
     (\<lparr>remote = [], waits = [], calls = [?q],
       failedProducts = [], progressCalls = []\<rparr>, Inl (JsError ''TypeError'' ''fetch failed''))"
    using shopifyGraphQL_retries [OF t0, where e = "JsError ''TypeError'' ''fetch failed''"
        and ?r2.0 = "[]"]
    by (simp add: scripted_def start_def)
  have D: "shopifyGraphQL scripted ?q
      (start [too_many_requests, too_many_requests, too_many_requests, too_many_requests,
              answer NoData]) =
     (\<lparr>remote = [answer NoData], waits = [500, 1000, 1500, 2000],
       calls = [?q], failedProducts = [], progressCalls = []\<rparr>,
      Inl (Error ''GraphQL request failed after max retries due to rate limiting''))"
    using shopifyGraphQL_retries [OF t4]
    by (simp add: start_def)
  from A B C D show ?thesis by (intro conjI)
qed

text \<open>Claim C9 as first stated covers every remote call. The image upload of a created product
  is a remote call too: here it is answered with the rate-limit status, and the run neither
  sleeps nor asks again; the answer becomes a ledger entry and the run goes on.\<close>

theorem image_upload_is_not_retried:
  "(\<lambda>run. (remote (fst run), waits (fst run), calls (fst run), failedProducts (fst run), snd run))
     (createOrUpdateProductBatch scripted [widget] Map.empty
        (start [answer (ProductMutationResponse
                  [(create_alias 0,
                    MutationResult (Some (MutationProduct ''gid://shopify/Product/7''
                                            [''gid://shopify/InventoryItem/7''])) [])]),
                too_many_requests,
                answer (InventoryMutationResponse [])])) =
     ([], [],
      [ProductMutation [productCreate 0 (product_input widget)],
       ImageUpload ''7'' ''http://img'',
       InventoryAdjustQuantities
         [InventoryChange (Some ''gid://shopify/InventoryItem/7'') (Num 10) locationId]],
      [''Image upload failed for Widget: Error: Failed to upload image: ''], Inr ())"
  by code_simp

text \<open>
  The case left out above. The client parses the body of a response (line 103) before it tests
  the status (line 104), outside any \<^verbatim>\<open>try\<close>: a response with the rate-limit status 429
  whose body does not parse makes the call raise the parse error, with no sleep, and the
  success that would have followed is never asked for, although the client tests the status
  429 in order to retry.
\<close>

lemma rate_limit_status_without_body_raises:
  "shopifyGraphQL scripted (ProductsQuery [''001''] None)
      (start [Response \<lparr>status = 429, statusText = ''Too Many Requests'', bodyText = [],
                        json = None\<rparr>, answer NoData]) =
     (\<lparr>remote = [answer NoData], waits = [], calls = [ProductsQuery [''001''] None],
       failedProducts = [], progressCalls = []\<rparr>,
      Inl (JsError ''SyntaxError'' ''Unexpected token''))"
  by code_simp

subsection \<open>Validation\<close>

lemma trim_Nil [simp]: "trim [] = []"
  by (simp add: trim_def)

lemma validateProduct_iff:
  "price p \<noteq> PosInfinity \<Longrightarrow> stock p \<noteq> PosInfinity \<Longrightarrow> validateProduct p = spec_accepts p"
  by (cases "price p"; cases "stock p")
     (auto simp: validateProduct_def spec_accepts_def isNaN_def)

lemma validate_batch_eq:
  "validate_batch batch st =
     (filter validateProduct batch,
      st\<lparr>failedProducts := failedProducts st @
            map (\<lambda>p. ''Validation failed for '' @ title p) (filter (\<lambda>p. \<not> validateProduct p) batch)\<rparr>)"
  by (induction batch arbitrary: st) (simp_all add: push_def)

text \<open>
  Claim C5, as amended. For an incoming record whose price and stock are not the positive
  infinity, validation accepts it exactly when the title and the barcode are not empty after
  trim and price and stock are finite numbers that are not negative. The valid items of a batch
  are kept in order, and every rejected item appends exactly one ledger entry,
  \<^verbatim>\<open>Validation failed for <title>\<close>, which names the product by its title.
\<close>

theorem validation_rule:
  "(price p \<noteq> PosInfinity \<and> stock p \<noteq> PosInfinity \<longrightarrow> validateProduct p = spec_accepts p) \<and>
   validate_batch batch st =
     (filter validateProduct batch,
      st\<lparr>failedProducts := failedProducts st @
            map (\<lambda>p. ''Validation failed for '' @ title p)
              (filter (\<lambda>p. \<not> validateProduct p) batch)\<rparr>)"
  by (simp add: validateProduct_iff validate_batch_eq)

text \<open>The scenario's product is accepted; the same product without barcode is rejected with
  one entry.\<close>

theorem validation_rule_witness:
  "price widget \<noteq> PosInfinity \<and> stock widget \<noteq> PosInfinity \<and>
   validateProduct widget \<and> spec_accepts widget \<and>
   validate_batch [widget, widget\<lparr>barcode := []\<rparr>] (start ()) =
     ([widget], (start ())\<lparr>failedProducts := [''Validation failed for Widget'']\<rparr>)"
proof -
  have v: "validateProduct widget" "\<not> validateProduct (widget\<lparr>barcode := []\<rparr>)"
    by code_simp+
  have w: "price widget \<noteq> PosInfinity" "stock widget \<noteq> PosInfinity" "title widget = ''Widget''"
    by (simp_all add: widget_def)
  from validation_rule [of widget "[widget, widget\<lparr>barcode := []\<rparr>]" "start ()"] v w
  show ?thesis by (simp add: start_def)
qed

text \<open>
  Claim C5 as first stated fails twice. A price of positive infinity is accepted, though it is
  not a finite number. And the entry of a rejected record does not name the violated field: a
  record without barcode and a record with a negative price get the same entry.
\<close>

theorem validation_counterexample:
  "validateProduct (widget\<lparr>price := PosInfinity\<rparr>) \<and>
   \<not> spec_accepts (widget\<lparr>price := PosInfinity\<rparr>) \<and>
   failedProducts (snd (validate_batch [widget\<lparr>barcode := []\<rparr>] (start ()))) =
     [''Validation failed for Widget''] \<and>
   failedProducts (snd (validate_batch [widget\<lparr>price := Num (- 1)\<rparr>] (start ()))) =
     [''Validation failed for Widget'']"
  by code_simp

subsection \<open>The keys of the index, and a second run\<close>

text \<open>
  Claim C3 (the keys the index is built from contain the barcode of every incoming product
  and the code of every delisted one). The keys are the \<^verbatim>\<open>code\<close> fields of both feeds: the
  barcode of the scenario's product is not among them, and the index built against a catalog
  that holds a product of that barcode does not have it.
\<close>

theorem allCodes_misses_barcode:
  "allCodes [widget] [\<lparr>code = ''999''\<rparr>] = [''001'', ''999''] \<and>
   barcode widget = ''1234567890123'' \<and>
   barcode widget \<notin> set (allCodes [widget] [\<lparr>code = ''999''\<rparr>]) \<and>
   map_option (\<lambda>run. case snd run of Inr index \<Rightarrow> index (barcode widget) | Inl e \<Rightarrow> None)
     (fetchExistingProducts 5 catalog_fetch (allCodes [widget] [\<lparr>code = ''999''\<rparr>])
        (start [RemoteProduct ''gid://shopify/Product/1'' ''1234567890123''
                  ''gid://shopify/InventoryItem/1''])) = Some None"
  by code_simp

text \<open>
  Claim C6 (a second run on the same feed, against what the first run left, only updates).
  Against the well-behaved catalog, the first run creates the product; the second run asks for
  the key \<^verbatim>\<open>001\<close>, is told of no product, and creates a second product with the same
  barcode.
\<close>

theorem second_run_creates_again:
  "map_option (\<lambda>run. (remote (fst run), mutation_sizes (calls (fst run)), snd run))
     (syncProductsWithShopify 5 catalog_fetch False [widget] [] []) =
     Some ([RemoteProduct ''gid://shopify/Product/1'' ''1234567890123'' ''gid://shopify/InventoryItem/1''],
           [1], Inr ()) \<and>
   map_option (\<lambda>run. (remote (fst run), calls (fst run), snd run))
     (syncProductsWithShopify 5 catalog_fetch False [widget] []
        [RemoteProduct ''gid://shopify/Product/1'' ''1234567890123'' ''gid://shopify/InventoryItem/1'']) =
     Some ([RemoteProduct ''gid://shopify/Product/1'' ''1234567890123'' ''gid://shopify/InventoryItem/1'',
            RemoteProduct ''gid://shopify/Product/2'' ''1234567890123'' ''gid://shopify/InventoryItem/2''],
           [ProductsQuery [''001''] None,
            ProductMutation [productCreate 0 (product_input widget)],
            ImageUpload ''2'' ''http://img'',
            InventoryAdjustQuantities
              [InventoryChange (Some ''gid://shopify/InventoryItem/2'') (Num 10) locationId]],
           Inr ())"
  by code_simp

text \<open>When the code of the product is its barcode the index finds it, and the second run
  updates it in place.\<close>

lemma second_run_updates_when_code_is_barcode:
  "map_option (\<lambda>run. (remote (fst run), calls (fst run), snd run))
     (syncProductsWithShopify 5 catalog_fetch False [widget\<lparr>ProductData.code := ''1234567890123''\<rparr>] []
        [RemoteProduct ''gid://shopify/Product/1'' ''1234567890123'' ''gid://shopify/InventoryItem/1'']) =
     Some ([RemoteProduct ''gid://shopify/Product/1'' ''1234567890123'' ''gid://shopify/InventoryItem/1''],
           [ProductsQuery [''1234567890123''] None,
            ProductMutation [productUpdate 0 ''gid://shopify/Product/1'' (product_input widget)],
            InventoryAdjustQuantities
              [InventoryChange (Some ''gid://shopify/InventoryItem/1'') (Num 10) locationId]],
           Inr ())"
  by code_simp

subsection \<open>The inventory adjustment of a batch\<close>

text \<open>
  Claim C2 (an item whose sub-result carries user errors gets one ledger entry and is left out
  of the inventory adjustment of its batch). One product whose creation the remote rejects: the
  ledger gets its entry, and the adjustment request still carries a change for it, with no
  inventory item since none was returned.
\<close>

theorem failed_item_is_adjusted:
  "(\<lambda>run. (calls (fst run), length (failedProducts (fst run)), snd run))
     (createOrUpdateProductBatch scripted [widget] Map.empty
        (start [answer (ProductMutationResponse
                          [(create_alias 0, MutationResult None [UserError ''title'' ''is invalid''])]),
                answer (InventoryMutationResponse [])])) =
     ([ProductMutation [productCreate 0 (product_input widget)],
       InventoryAdjustQuantities [InventoryChange None (Num 10) locationId]], 1, Inr ())"
  by code_simp

subsection \<open>Delisted products under the zero-stock policy\<close>

text \<open>
  What \<open>setEpuisesStock\<close> asks and records, whatever the remote does. The products found in
  the index contribute, each, one adjustment with delta 0 on its inventory item, all in one
  inventory-adjustment request and in feed order; no other request is issued, and none at all
  when no product is found. Every product that is not found appends one entry
  \<^verbatim>\<open>Epuises product not found: <code>\<close>. After these, the ledger gets the entries
  \<^verbatim>\<open>Failed to update Epuises inventory for <code>\<close>, one for every product of the feed,
  exactly when the request was sent and its answer carries user errors.
\<close>

lemma setEpuisesStock_effect:
  assumes "setEpuisesStock fetch epuises ex st = (st', res)"
  shows "calls st' = calls st @
           (if filter (found ex) epuises = [] then []
            else [InventoryAdjustQuantities (map (zero_adjustment ex) (filter (found ex) epuises))])"
    and "\<forall>p \<in> set epuises. found ex p \<longrightarrow>
            ch_delta (zero_adjustment ex p) = Num 0 \<and>
            ch_inventoryItemId (zero_adjustment ex p) \<noteq> None"
    and "progressCalls st' = progressCalls st"
    and "failedProducts st' =
           failedProducts st @
           map (\<lambda>p. ''Epuises product not found: '' @ EpuisesData.code p)
             (filter (\<lambda>p. \<not> found ex p) epuises) @
           (if filter (found ex) epuises = [] then []
            else
              case snd (shopifyGraphQL fetch
                     (InventoryAdjustQuantities
                        (map (zero_adjustment ex) (filter (found ex) epuises)))
                     (st\<lparr>failedProducts := failedProducts st @
                           map (\<lambda>p. ''Epuises product not found: '' @ EpuisesData.code p)
                             (filter (\<lambda>p. \<not> found ex p) epuises)\<rparr>)) of
                Inl e \<Rightarrow> []
              | Inr inventoryResult \<Rightarrow>
                  (case data inventoryResult of
                     InventoryMutationResponse userErrors \<Rightarrow>
                       if userErrors \<noteq> [] then
                         map (\<lambda>p. ''Failed to update Epuises inventory for '' @
                                  EpuisesData.code p @ '': '' @
                                  JSON_stringify_userErrors userErrors) epuises
                       else []
                   | _ \<Rightarrow> []))"
proof -
  let ?adj = "map (zero_adjustment ex) (filter (found ex) epuises)"
  let ?st1 = "st\<lparr>failedProducts := failedProducts st @
            map (\<lambda>p. ''Epuises product not found: '' @ EpuisesData.code p)
              (filter (\<lambda>p. \<not> found ex p) epuises)\<rparr>"
  show "\<forall>p \<in> set epuises. found ex p \<longrightarrow>
            ch_delta (zero_adjustment ex p) = Num 0 \<and>
            ch_inventoryItemId (zero_adjustment ex p) \<noteq> None"
    by (auto simp: found_def zero_adjustment_def)
  obtain st2 r2 where g: "shopifyGraphQL fetch (InventoryAdjustQuantities ?adj) ?st1 = (st2, r2)"
    by (cases "shopifyGraphQL fetch (InventoryAdjustQuantities ?adj) ?st1")
  note f = shopifyGraphQL_frame [OF g]
  have e: "filter (found ex) epuises = [] \<Longrightarrow> st' = ?st1"
    using assms by (simp add: setEpuisesStock_def prepare_adjustments_eq)
  show "calls st' = calls st @
           (if filter (found ex) epuises = [] then [] else [InventoryAdjustQuantities ?adj])"
    using assms g f e
    by (cases "filter (found ex) epuises = []")
       (auto simp: setEpuisesStock_def prepare_adjustments_eq
          split: sum.splits response_data.splits if_splits)
  show "progressCalls st' = progressCalls st"
    using assms g f e
    by (cases "filter (found ex) epuises = []")
       (auto simp: setEpuisesStock_def prepare_adjustments_eq
          split: sum.splits response_data.splits if_splits)
  show "failedProducts st' =
           failedProducts st @
           map (\<lambda>p. ''Epuises product not found: '' @ EpuisesData.code p)
             (filter (\<lambda>p. \<not> found ex p) epuises) @
           (if filter (found ex) epuises = [] then []
            else
              case snd (shopifyGraphQL fetch (InventoryAdjustQuantities ?adj) ?st1) of
                Inl e \<Rightarrow> []
              | Inr inventoryResult \<Rightarrow>
                  (case data inventoryResult of
                     InventoryMutationResponse userErrors \<Rightarrow>
                       if userErrors \<noteq> [] then
                         map (\<lambda>p. ''Failed to update Epuises inventory for '' @
                                  EpuisesData.code p @ '': '' @
                                  JSON_stringify_userErrors userErrors) epuises
                       else []
                   | _ \<Rightarrow> []))"
    using assms g f e
    by (cases "filter (found ex) epuises = []")
       (auto simp: setEpuisesStock_def prepare_adjustments_eq
          split: sum.splits response_data.splits if_splits)
qed

text \<open>The scenarios of the specification: code 999 is in the index and code 888 is not, and the
  remote accepts the request. One request with the one adjustment of delta 0, no deletion, and
  one entry for 888.\<close>

lemma zero_stock_scenario:
  "(\<lambda>run. (calls (fst run), failedProducts (fst run), snd run))
     (setEpuisesStock scripted [\<lparr>code = ''999''\<rparr>, \<lparr>code = ''888''\<rparr>] depot
        (start [answer (InventoryMutationResponse [])])) =
     ([InventoryAdjustQuantities
         [InventoryChange (Some ''gid://shopify/InventoryItem/2'') (Num 0) locationId]],
      [''Epuises product not found: 888''], Inr ())"
  by code_simp

text \<open>
  Claim C10 (under the zero-stock policy a delisted product found in the index contributes one
  adjustment with delta 0 and no deletion; one that is not found triggers no remote call and
  exactly one ledger entry, the not-found one). When the remote answers the adjustment request
  with user errors, the loop of line 400 runs over the whole feed and not over the prepared
  adjustments: the product 888, which is not in the index and not in the request, gets a second
  entry, which says that its inventory update failed.
\<close>

theorem absent_product_has_two_entries:
  "failedProducts (fst (setEpuisesStock scripted [\<lparr>code = ''999''\<rparr>, \<lparr>code = ''888''\<rparr>] depot
      (start [answer (InventoryMutationResponse [UserError ''quantity'' ''is invalid''])]))) =
   [''Epuises product not found: 888'',
    ''Failed to update Epuises inventory for 999: '' @
      JSON_stringify_userErrors [UserError ''quantity'' ''is invalid''],
    ''Failed to update Epuises inventory for 888: '' @
      JSON_stringify_userErrors [UserError ''quantity'' ''is invalid'']]"
  by code_simp

subsection \<open>The combined requests of a whole run\<close>

lemma nouveautes_loop_calls:
  "nouveautes_loop fetch ex len bs st = (st', res) \<Longrightarrow>
     \<exists>k \<le> length bs.
       mutation_sizes (calls st') =
         mutation_sizes (calls st) @
         map length (filter (\<lambda>b. b \<noteq> []) (map (filter validateProduct) (take k bs))) \<and>
       (res = Inr () \<longrightarrow> k = length bs)"
proof (induction bs arbitrary: st)
  case Nil
  then show ?case by simp
next
  case (Cons b bs)
  let ?valid = "filter validateProduct b"
  obtain st1 where v: "validate_batch b st = (?valid, st1)" and c1: "calls st1 = calls st"
    by (simp add: validate_batch_eq)
  obtain st2 r2 where g: "createOrUpdateProductBatch fetch ?valid ex st1 = (st2, r2)"
    by (cases "createOrUpdateProductBatch fetch ?valid ex st1")
  from createOrUpdateProductBatch_frame [OF g] c1
  have f: "mutation_sizes (calls st2) =
      mutation_sizes (calls st) @ map length (filter (\<lambda>b. b \<noteq> []) [?valid])"
    by simp
  show ?case
  proof (cases r2)
    case (Inl e)
    with Cons.prems v g have "st' = st2" "res = Inl e" by simp_all
    with f show ?thesis by (intro exI [of _ 1]) simp
  next
    case (Inr u)
    with Cons.prems v g
    have "nouveautes_loop fetch ex len bs
            (progressCallback (batch_share len (length ?valid)) st2) = (st', res)"
      by simp
    from Cons.IH [OF this] obtain k where k: "k \<le> length bs"
      "mutation_sizes (calls st') =
         mutation_sizes (calls st2) @
         map length (filter (\<lambda>b. b \<noteq> []) (map (filter validateProduct) (take k bs)))"
      "res = Inr () \<longrightarrow> k = length bs"
      by auto
    with f show ?thesis by (intro exI [of _ "Suc k"]) simp
  qed
qed

lemma sync_calls:
  assumes "syncProductsWithShopify fuel fetch del ns es r = Some (st, res)"
  shows "\<exists>k \<le> length (batches 50 ns).
           mutation_sizes (calls st) =
             map length (filter (\<lambda>b. b \<noteq> [])
                           (map (filter validateProduct) (take k (batches 50 ns)))) \<and>
           (res = Inr () \<longrightarrow> k = length (batches 50 ns))"
proof -
  from assms obtain st1 r1 where
    g1: "fetchExistingProducts fuel fetch (allCodes ns es) (start r) = Some (st1, r1)"
    by (auto simp: syncProductsWithShopify_def split: option.splits)
  from fetch_batches_frame [OF g1 [unfolded fetchExistingProducts_def]]
  have f1: "mutation_sizes (calls st1) = []" by simp
  show ?thesis
  proof (cases r1)
    case (Inl e)
    with assms g1 have "st = st1" "res = Inl e"
      by (simp_all add: syncProductsWithShopify_def)
    with f1 show ?thesis by (intro exI [of _ 0]) simp
  next
    case (Inr ex)
    obtain st2 r2 where g2: "nouveautes_loop fetch ex (length ns) (batches 50 ns)
        (progressCallback 10 st1) = (st2, r2)"
      by (cases "nouveautes_loop fetch ex (length ns) (batches 50 ns) (progressCallback 10 st1)")
    from nouveautes_loop_calls [OF g2] f1 obtain k where k: "k \<le> length (batches 50 ns)"
      "mutation_sizes (calls st2) =
         map length (filter (\<lambda>b. b \<noteq> []) (map (filter validateProduct) (take k (batches 50 ns))))"
      "r2 = Inr () \<longrightarrow> k = length (batches 50 ns)"
      by auto
    show ?thesis
    proof (cases r2)
      case e2: (Inl e)
      with assms g1 Inr g2 have "st = st2" "res = Inl e"
        by (simp_all add: syncProductsWithShopify_def)
      with k show ?thesis by (intro exI [of _ k]) simp
    next
      case u2: (Inr u)
      obtain st3 r3 where g3: "(if del then deleteEpuisesProducts fetch es ex st2
                      else setEpuisesStock fetch es ex st2) = (st3, r3)"
        by (cases "if del then deleteEpuisesProducts fetch es ex st2
                      else setEpuisesStock fetch es ex st2")
      then have f3: "mutation_sizes (calls st3) = mutation_sizes (calls st2)"
        by (auto split: if_splits dest: deleteEpuisesProducts_frame setEpuisesStock_frame)
      from assms g1 Inr g2 u2 g3 have "mutation_sizes (calls st) = mutation_sizes (calls st3)"
        by (auto simp: syncProductsWithShopify_def split: sum.splits)
      with k f3 u2 show ?thesis by (intro exI [of _ k]) simp
    qed
  qed
qed

text \<open>
  Claim C4, as amended. In every run no combined create-or-update request has more than 50
  items, and there are at most \<open>\<lceil>M/50\<rceil>\<close> of them for \<open>M\<close> incoming items. The incoming items are
  cut into slices of 50 before validation; a run that returns has issued one combined request
  for each slice that has at least one valid item, with one sub-operation for each valid item
  of that slice. When every incoming item is valid these are exactly \<open>\<lceil>N/50\<rceil>\<close> requests for the
  \<open>N\<close> valid items.
\<close>

theorem batch_width_and_calls:
  assumes "syncProductsWithShopify fuel fetch del nouveautes epuises r = Some (st, res)"
  shows "(\<forall>ops. ProductMutation ops \<in> set (calls st) \<longrightarrow> length ops \<le> 50) \<and>
         length (mutation_sizes (calls st)) \<le> (length nouveautes + 49) div 50 \<and>
         (res = Inr () \<longrightarrow>
            mutation_sizes (calls st) =
              map length (filter (\<lambda>b. b \<noteq> [])
                            (map (filter validateProduct) (batches 50 nouveautes)))) \<and>
         (res = Inr () \<and> (\<forall>p \<in> set nouveautes. validateProduct p) \<longrightarrow>
            length (mutation_sizes (calls st)) =
              (length (filter validateProduct nouveautes) + 49) div 50)"
proof -
  let ?bs = "batches 50 nouveautes"
  from sync_calls [OF assms] obtain k where k: "k \<le> length ?bs"
    "mutation_sizes (calls st) =
       map length (filter (\<lambda>b. b \<noteq> []) (map (filter validateProduct) (take k ?bs)))"
    "res = Inr () \<longrightarrow> k = length ?bs"
    by auto
  have len: "length ?bs = (length nouveautes + 49) div 50"
    by (simp add: batches_def length_batches_from)
  have small: "n \<le> 50" if "n \<in> set (mutation_sizes (calls st))" for n
  proof -
    from that k(2) obtain b where b: "b \<in> set (take k ?bs)" "n = length (filter validateProduct b)"
      by auto
    from b(1) have "b \<in> set ?bs" by (rule in_set_takeD)
    then have "length b \<le> 50" by (simp add: batches_def batches_from_length_le)
    moreover have "length (filter validateProduct b) \<le> length b" by (rule length_filter_le)
    ultimately show ?thesis using b(2) by linarith
  qed
  have a: "\<forall>ops. ProductMutation ops \<in> set (calls st) \<longrightarrow> length ops \<le> 50"
    using small mutation_sizes_member by blast
  have "length (mutation_sizes (calls st)) \<le> length (take k ?bs)"
    unfolding k(2) length_map
    by (rule order_trans [OF length_filter_le]) simp
  then have b: "length (mutation_sizes (calls st)) \<le> (length nouveautes + 49) div 50"
    using k(1) len by simp
  have c: "res = Inr () \<longrightarrow>
            mutation_sizes (calls st) =
              map length (filter (\<lambda>b. b \<noteq> []) (map (filter validateProduct) ?bs))"
    using k by simp
  have d: "length (mutation_sizes (calls st)) = (length (filter validateProduct nouveautes) + 49) div 50"
    if r: "res = Inr ()" and v: "\<forall>p \<in> set nouveautes. validateProduct p"
  proof -
    have "set (concat ?bs) = set nouveautes"
      by (simp add: batches_def concat_batches_from)
    then have "\<forall>b \<in> set ?bs. \<forall>p \<in> set b. validateProduct p"
      using v by auto
    then have "map (filter validateProduct) ?bs = ?bs"
      by (simp add: map_idI)
    moreover have "filter (\<lambda>b. b \<noteq> []) ?bs = ?bs"
      by (simp add: batches_def batches_from_nonempty)
    moreover have "filter validateProduct nouveautes = nouveautes"
      using v by simp
    ultimately show ?thesis using c r len by simp
  qed
  from a b c d show ?thesis by blast
qed

text \<open>Against the remote that accepts everything, every call of the client returns at once,
  every batch goes through, and the whole run returns normally, whatever the feeds.\<close>

lemma accepting_graphql:
  "shopifyGraphQL accepting req st =
     (st\<lparr>calls := calls st @ [req]\<rparr>, Inr \<lparr>data = accepted req, errors = None\<rparr>)"
  by (cases st)
     (simp add: shopifyGraphQL_def attempt.simps [of accepting req 0] accepting_def answer_def
        throttled_def ok_def maxRetries_def)

lemma map_of_accepted:
  "(index, product) \<in> set ips \<Longrightarrow>
     map_of (map accept_op (map (build_mutation Map.empty) ips)) (create_alias index) =
       Some (MutationResult (Some (MutationProduct ''gid://shopify/Product/1''
                                     [''gid://shopify/InventoryItem/1''])) [])"
  by (induction ips) (auto simp: build_mutation_def)

lemma process_results_accepting:
  "set ips' \<subseteq> set ips \<Longrightarrow>
     \<exists>st' vars'. process_results accepting Map.empty
        (ProductMutationResponse (map accept_op (map (build_mutation Map.empty) ips)))
        ips' vars st = (st', Inr vars')"
proof (induction ips' arbitrary: vars st)
  case Nil
  then show ?case by simp
next
  case (Cons ip ips')
  obtain index product where ip: "ip = (index, product)" by (cases ip)
  with Cons.prems have m: "(index, product) \<in> set ips" and s: "set ips' \<subseteq> set ips" by auto
  show ?case
    unfolding ip using Cons.IH [OF s] by (simp add: map_of_accepted [OF m] del: map_map)
qed

lemma createOrUpdateProductBatch_accepting:
  "\<exists>st'. createOrUpdateProductBatch accepting products Map.empty st = (st', Inr ())"
proof (cases "products = []")
  case True
  then show ?thesis by (simp add: createOrUpdateProductBatch_def enumerate_eq_zip)
next
  case False
  let ?ips = "enumerate 0 products"
  let ?st1 = "st\<lparr>calls := calls st @ [ProductMutation (map (build_mutation Map.empty) ?ips)]\<rparr>"
  from False have ne: "map (build_mutation Map.empty) ?ips \<noteq> []" by (simp add: enumerate_eq_zip)
  obtain st2 vars where p: "process_results accepting Map.empty
        (ProductMutationResponse (map accept_op (map (build_mutation Map.empty) ?ips)))
        ?ips (initial_variables Map.empty ?ips) ?st1 = (st2, Inr vars)"
    using process_results_accepting [of ?ips ?ips] by blast
  show ?thesis
    using ne p
    by (simp add: createOrUpdateProductBatch_def Let_def accepting_graphql accepted_def
        del: map_map)
qed

lemma nouveautes_loop_accepting:
  "\<exists>st'. nouveautes_loop accepting Map.empty len bs st = (st', Inr ())"
proof (induction bs arbitrary: st)
  case Nil
  show ?case by simp
next
  case (Cons b bs)
  obtain valid st1 where v: "validate_batch b st = (valid, st1)" by (cases "validate_batch b st")
  obtain st2 where c: "createOrUpdateProductBatch accepting valid Map.empty st1 = (st2, Inr ())"
    using createOrUpdateProductBatch_accepting by blast
  show ?case using v c Cons.IH by simp
qed

lemma fetch_batches_accepting:
  "\<exists>st'. fetch_batches (Suc fuel) accepting bs ex st = Some (st', Inr ex)"
  by (induction bs arbitrary: st) (simp_all add: accepting_graphql accepted_def)

lemma setEpuisesStock_accepting:
  "\<exists>st'. setEpuisesStock accepting epuises Map.empty st = (st', Inr ())"
  by (simp add: setEpuisesStock_def prepare_adjustments_eq found_def)

lemma sync_accepting:
  "\<exists>st. syncProductsWithShopify (Suc fuel) accepting False nouveautes epuises () = Some (st, Inr ())"
proof -
  obtain st1 where f: "fetchExistingProducts (Suc fuel) accepting (allCodes nouveautes epuises)
      (start ()) = Some (st1, Inr Map.empty)"
    unfolding fetchExistingProducts_def using fetch_batches_accepting by blast
  obtain st2 where l: "nouveautes_loop accepting Map.empty (length nouveautes)
      (batches 50 nouveautes) (progressCallback 10 st1) = (st2, Inr ())"
    using nouveautes_loop_accepting by blast
  obtain st3 where e: "setEpuisesStock accepting epuises Map.empty st2 = (st3, Inr ())"
    using setEpuisesStock_accepting by blast
  show ?thesis using f l e by (simp add: syncProductsWithShopify_def)
qed

text \<open>
  Claim C4 as first stated counts \<open>\<lceil>N/50\<rceil>\<close> combined requests for \<open>N\<close> valid items. Fifty-one
  incoming items, the first one without title: the 50 valid items make \<open>\<lceil>50/50\<rceil> = 1\<close>, and the
  run, which returns normally, has issued two combined requests, of 49 items and of 1 item.
\<close>

theorem slices_counterexample:
  "mutation_calls (syncProductsWithShopify 1 accepting False
      (widget\<lparr>title := []\<rparr> # replicate 50 widget) [] ()) = Some ([49, 1], Inr ()) \<and>
   length (filter validateProduct (widget\<lparr>title := []\<rparr> # replicate 50 widget)) = 50"
proof -
  have v: "validateProduct widget" "\<not> validateProduct (widget\<lparr>title := []\<rparr>)"
    by code_simp+
  obtain st where r: "syncProductsWithShopify 1 accepting False
      (widget\<lparr>title := []\<rparr> # replicate 50 widget) [] () = Some (st, Inr ())"
    using sync_accepting [of 0] by auto
  from sync_calls [OF r] have "mutation_sizes (calls st) = [49, 1]"
    by (simp add: batches_51 v)
  with r v show ?thesis by (simp add: mutation_calls_def)
qed

text \<open>The run of the scenario's row against the well-behaved catalog.\<close>

lemma widget_run:
  "syncProductsWithShopify 5 catalog_fetch False [widget] [] [] =
     Some (\<lparr>remote = [RemoteProduct ''gid://shopify/Product/1'' ''1234567890123''
                        ''gid://shopify/InventoryItem/1''],
            waits = [],
            calls = [ProductsQuery [''001''] None,
                     ProductMutation [productCreate 0 (product_input widget)],
                     ImageUpload ''1'' ''http://img'',
                     InventoryAdjustQuantities
                       [InventoryChange (Some ''gid://shopify/InventoryItem/1'') (Num 10) locationId]],
            failedProducts = [], progressCalls = [10, 80, 10]\<rparr>, Inr ())"
  by code_simp

text \<open>One valid item: one slice, one combined request of one item.\<close>

theorem batch_width_and_calls_witness:
  "syncProductsWithShopify 5 catalog_fetch False [widget] [] [] \<noteq> None \<and>
   snd (the (syncProductsWithShopify 5 catalog_fetch False [widget] [] [])) = Inr () \<and>
   validateProduct widget \<and>
   mutation_sizes (calls (fst (the (syncProductsWithShopify 5 catalog_fetch False [widget] [] [])))) = [1] \<and>
   length (mutation_sizes
     (calls (fst (the (syncProductsWithShopify 5 catalog_fetch False [widget] [] []))))) =
     (length (filter validateProduct [widget]) + 49) div 50"
proof -
  let ?run = "syncProductsWithShopify 5 catalog_fetch False [widget] [] []"
  have v: "validateProduct widget" by code_simp
  have r: "?run = Some (fst (the ?run), snd (the ?run))" and u: "snd (the ?run) = Inr ()"
    by (simp_all add: widget_run)
  have b: "batches 50 [widget] = [[widget]]"
    unfolding batches_def
    by (subst batches_from.simps, simp, subst batches_from.simps, simp)
  from batch_width_and_calls [OF r] u v b
  have "mutation_sizes (calls (fst (the ?run))) = [1]" by simp
  moreover have "?run \<noteq> None" by (simp add: widget_run)
  ultimately show ?thesis using u v by simp
qed

subsection \<open>The progress counter\<close>




lemma progress_values_nonempty [simp]: "progress_values p amounts \<noteq> []"
  by (cases amounts) simp_all











text \<open>
  Claim C8 (the batches of incoming products share 80 between them). Two valid products in one
  batch: the engine reports 10, then 160, then 10.
\<close>

theorem batch_progress_is_not_a_share_of_80:
  "map_option (\<lambda>run. (progressCalls (fst run), snd run))
     (syncProductsWithShopify 5 catalog_fetch False [widget, widget\<lparr>barcode := ''222''\<rparr>] [] []) =
     Some ([10, 160, 10], Inr ())"
  by code_simp

text \<open>In general a run that returns has reported 10, then for each slice of 50 incoming items
  the share \<open>80 / \<lceil>M/50\<rceil>\<close> multiplied by the number of valid items of the slice, then 10.\<close>

lemma nouveautes_loop_reports:
  "nouveautes_loop fetch ex len bs st = (st', Inr u) \<Longrightarrow>
     progressCalls st' =
       progressCalls st @ map (\<lambda>b. batch_share len (length (filter validateProduct b))) bs"
proof (induction bs arbitrary: st)
  case Nil
  then show ?case by simp
next
  case (Cons b bs)
  let ?valid = "filter validateProduct b"
  obtain st1 where v: "validate_batch b st = (?valid, st1)"
    and c1: "progressCalls st1 = progressCalls st"
    by (simp add: validate_batch_eq)
  obtain st2 r2 where g: "createOrUpdateProductBatch fetch ?valid ex st1 = (st2, r2)"
    by (cases "createOrUpdateProductBatch fetch ?valid ex st1")
  from createOrUpdateProductBatch_frame [OF g] c1
  have f: "progressCalls st2 = progressCalls st" by simp
  from Cons.prems v g
  have "nouveautes_loop fetch ex len bs
       (progressCallback (batch_share len (length ?valid)) st2) = (st', Inr u)"
    by (cases r2) simp_all
  from Cons.IH [OF this] f show ?case by simp
qed

lemma sync_reports:
  assumes "syncProductsWithShopify fuel fetch del ns es r = Some (st, Inr u)"
  shows "progressCalls st =
           10 # map (\<lambda>b. batch_share (length ns) (length (filter validateProduct b)))
                  (batches 50 ns) @ [10]"
proof -
  from assms obtain st1 ex where
    g1: "fetchExistingProducts fuel fetch (allCodes ns es) (start r) = Some (st1, Inr ex)"
    by (auto simp: syncProductsWithShopify_def split: option.splits sum.splits)
  from fetch_batches_frame [OF g1 [unfolded fetchExistingProducts_def]]
  have f1: "progressCalls st1 = []" by simp
  from assms g1 obtain st2 u2 where g2: "nouveautes_loop fetch ex (length ns) (batches 50 ns)
        (progressCallback 10 st1) = (st2, Inr u2)"
    by (auto simp: syncProductsWithShopify_def split: prod.splits sum.splits)
  note f2 = nouveautes_loop_reports [OF g2]
  from assms g1 g2 obtain st3 u3 where
    g3: "(if del then deleteEpuisesProducts fetch es ex st2
          else setEpuisesStock fetch es ex st2) = (st3, Inr u3)"
    and e: "st = progressCallback 10 st3"
    by (auto simp: syncProductsWithShopify_def split: prod.splits sum.splits if_splits)
  from g3 have f3: "progressCalls st3 = progressCalls st2"
    by (auto split: if_splits dest: deleteEpuisesProducts_frame setEpuisesStock_frame)
  from e f1 f2 f3 show ?thesis by simp
qed

subsection \<open>The result of the action\<close>

text \<open>
  Claim C1 (the terminal result carries the ledger, and its success flag is true exactly when
  the ledger is empty). One incoming product without barcode: the engine's ledger holds the
  validation failure, and the action answers with success and an empty list, since the
  \<^verbatim>\<open>failedProducts\<close> of the action is never written.
\<close>

theorem action_drops_ledger:
  "map_option (\<lambda>run. (failedProducts (fst run), snd run))
     (syncProductsWithShopify 5 catalog_fetch False [widget\<lparr>barcode := []\<rparr>] [] []) =
     Some ([''Validation failed for Widget''], Inr ()) \<and>
   map_option fst (action 5 catalog_fetch (feeds [widget\<lparr>barcode := []\<rparr>] []) []) =
     Some (Json (ActionResult 100 True
             ''Successfully synced 1 Nouveautes and 0 Epuises products'' [] 200))"
  by code_simp

text \<open>More generally, whatever the run did, the result of the action has an empty list of
  failures, and a result of status 200 says success.\<close>

lemma action_reports_no_failure:
  assumes "action fuel fetch env r = Some (Json result, ps)"
  shows "res_failedProducts result = [] \<and> (res_status result = 200 \<longrightarrow> res_success result)"
  using assms
  unfolding action_def action_try_def Let_def
  by (auto split: sum.splits option.splits prod.splits if_splits)

end
